theory Spec2Isabelle
  imports Main "HOL-Library.AList"
begin

unbundle bit_operations_syntax

section \<open>JavaScript values\<close>

text \<open>
  The service of \<^verbatim>\<open>flutterwaveApiUtils.ts\<close> handles values typed \<^verbatim>\<open>any\<close>: the parsed
  gateway body, the object it encrypts, the errors it catches. They are modelled by one
  datatype of JSON-like values.

  A string is the list of its UTF-16 code units, each a natural number (below 65536).
  \<open>str\<close> turns a literal of the theory into such a string.

  A number is an IEEE double. The service does no arithmetic: it converts numbers to
  strings and tests them for truth. A number is therefore represented by what the service
  can observe of it: the text \<^verbatim>\<open>Number.prototype.toString\<close> prints for it, whether it is
  truthy (neither zero nor NaN), and whether it is finite. Every double has such a
  representation, so that what is proved for all representations holds for all doubles.

  An object is the list of its own properties in insertion order; a lookup takes the
  first entry of a key.
\<close>

type_synonym jsstring = "nat list"

definition str :: "string \<Rightarrow> jsstring" where
  "str s = map of_char s"

datatype jsnum = JsNum (num_text: jsstring) (num_truthy: bool) (num_finite: bool)

datatype jsval =
    JUndefined
  | JNull
  | JBool bool
  | JNum jsnum
  | JStr jsstring
  | JArr "jsval list"
  | JObj "(jsstring \<times> jsval) list"

text \<open>ToBoolean, as used by \<^verbatim>\<open>if (x)\<close>, \<^verbatim>\<open>!x\<close>, \<^verbatim>\<open>x || y\<close> and \<^verbatim>\<open>x && y\<close>.\<close>

fun truthy :: "jsval \<Rightarrow> bool" where
  "truthy JUndefined = False"
| "truthy JNull = False"
| "truthy (JBool b) = b"
| "truthy (JNum n) = num_truthy n"
| "truthy (JStr s) = (s \<noteq> [])"
| "truthy (JArr vs) = True"
| "truthy (JObj kvs) = True"

definition js_or :: "jsval \<Rightarrow> jsval \<Rightarrow> jsval" where
  "js_or a b = (if truthy a then a else b)"

fun nullish :: "jsval \<Rightarrow> bool" where
  "nullish JUndefined = True"
| "nullish JNull = True"
| "nullish v = False"

text \<open>
  \<^verbatim>\<open>v[k]\<close> for a value that is neither null nor undefined, for the property names this
  service reads (\<^verbatim>\<open>status\<close>, \<^verbatim>\<open>message\<close>, \<^verbatim>\<open>data\<close>, \<^verbatim>\<open>meta\<close>, \<^verbatim>\<open>authorization\<close>,
  \<^verbatim>\<open>mode\<close>, \<^verbatim>\<open>flw_ref\<close>, \<^verbatim>\<open>client_ip\<close>, \<^verbatim>\<open>device_fingerprint\<close>): none of them is
  inherited from a prototype, so only an object can have one.
\<close>

fun getProp :: "jsval \<Rightarrow> jsstring \<Rightarrow> jsval" where
  "getProp (JObj kvs) k = (case map_of kvs k of Some v \<Rightarrow> v | None \<Rightarrow> JUndefined)"
| "getProp v k = JUndefined"

text \<open>Optional chaining \<^verbatim>\<open>v?.k\<close>.\<close>

definition optChain :: "jsval \<Rightarrow> jsstring \<Rightarrow> jsval" where
  "optChain v k = (if nullish v then JUndefined else getProp v k)"

text \<open>Property assignment \<^verbatim>\<open>o.k = v\<close> and a member \<^verbatim>\<open>k: v\<close> of an object literal: the
  value of an existing key is replaced in place, a new key is appended.\<close>

definition assign :: "jsstring \<Rightarrow> jsval \<Rightarrow> (jsstring \<times> jsval) list \<Rightarrow> (jsstring \<times> jsval) list" where
  "assign k v kvs = AList.update k v kvs"

section \<open>Strings\<close>

text \<open>The decimal digits of an array index, the key under which a spread copies an
  element.\<close>

fun digits :: "nat \<Rightarrow> jsstring" where
  "digits n = (if n < 10 then [48 + n] else digits (n div 10) @ [48 + n mod 10])"

text \<open>\<^verbatim>\<open>toLocaleLowerCase\<close>: the letters A to Z are mapped to a to z. (The locale-specific
  mappings concern other characters; the strings it is applied to here are the values of
  \<^verbatim>\<open>AuthorizationMode\<close>.)\<close>

definition lower_unit :: "nat \<Rightarrow> nat" where
  "lower_unit c = (if 65 \<le> c \<and> c \<le> 90 then c + 32 else c)"

definition toLocaleLowerCase :: "jsstring \<Rightarrow> jsstring" where
  "toLocaleLowerCase s = map lower_unit s"

fun join :: "jsstring \<Rightarrow> jsstring list \<Rightarrow> jsstring" where
  "join sep [] = []"
| "join sep [x] = x"
| "join sep (x # y # ys) = x @ sep @ join sep (y # ys)"

text \<open>The own enumerable properties copied by a spread \<^verbatim>\<open>{...v}\<close>.\<close>

fun indexed :: "nat \<Rightarrow> jsval list \<Rightarrow> (jsstring \<times> jsval) list" where
  "indexed i [] = []"
| "indexed i (v # vs) = (digits i, v) # indexed (Suc i) vs"

fun ownProps :: "jsval \<Rightarrow> (jsstring \<times> jsval) list" where
  "ownProps (JObj kvs) = kvs"
| "ownProps (JArr vs) = indexed 0 vs"
| "ownProps (JStr s) = indexed 0 (map (\<lambda>c. JStr [c]) s)"
| "ownProps v = []"

section \<open>Errors\<close>

definition BAD_REQUEST :: nat where
  "BAD_REQUEST = 400"

definition INTERNAL_SERVER_ERROR :: nat where
  "INTERNAL_SERVER_ERROR = 500"

text \<open>
  Modelled from the spec: \<^verbatim>\<open>ApiError\<close> (\<^verbatim>\<open>./ApiError\<close> is imported, its file is not
  part of the sources). It is the one reported error type, carrying a classification
  (the HTTP status code it is constructed with) and the message it is constructed with,
  verbatim. (A subclass of \<^verbatim>\<open>Error\<close> reads a string message back as it is and an
  undefined one as the empty string, which is falsy like undefined: for the messages the
  response types declare, a string or none, the handlers cannot tell the difference.)
\<close>

datatype ApiError = ApiError (statusCode: nat) (message: jsval)

text \<open>
  What a \<^verbatim>\<open>catch (error: any)\<close> can receive: an \<^verbatim>\<open>ApiError\<close> thrown inside the
  \<^verbatim>\<open>try\<close>, or any other error object, of which the handlers read \<^verbatim>\<open>error.response\<close>
  (set by the HTTP client when the gateway answered with a failure status, undefined
  otherwise) and \<^verbatim>\<open>error.message\<close>.
\<close>

datatype thrown = Api ApiError | Other jsval jsval

fun error_response :: "thrown \<Rightarrow> jsval" where
  "error_response (Api a) = JUndefined"
| "error_response (Other r m) = r"

fun error_message :: "thrown \<Rightarrow> jsval" where
  "error_message (Api a) = message a"
| "error_message (Other r m) = m"

text \<open>Reading a property of null or undefined throws a TypeError.\<close>

definition TypeError :: "jsval \<Rightarrow> jsstring \<Rightarrow> thrown" where
  "TypeError v k = Other JUndefined
     (JStr (str ''Cannot read properties of ''
            @ (if v = JNull then str ''null'' else str ''undefined'')
            @ str '' (reading '' @ str [CHR 0x27] @ k @ str [CHR 0x27] @ str '')''))"

definition readProp :: "jsval \<Rightarrow> jsstring \<Rightarrow> thrown + jsval" where
  "readProp v k = (if nullish v then Inl (TypeError v k) else Inr (getProp v k))"

text \<open>
  ToString, as a template literal \<^verbatim>\<open>`...${v}...`\<close> applies it. A string is itself; a
  number is the text \<^verbatim>\<open>toString\<close> prints; an array is its elements joined with commas,
  null and undefined elements being empty. An object parsed from JSON has no callable
  property of its own: when it has no own property \<^verbatim>\<open>toString\<close> the inherited one
  gives \<^verbatim>\<open>[object Object]\<close>; when it has one, that property is skipped, \<^verbatim>\<open>valueOf\<close>
  (its own, not callable, or the inherited one, which returns the object) gives no
  primitive value either, and a TypeError is thrown.
\<close>

fun ToString :: "jsval \<Rightarrow> thrown + jsstring"
  and ToString_elements :: "jsval list \<Rightarrow> thrown + jsstring list"
where
  "ToString JUndefined = Inr (str ''undefined'')"
| "ToString JNull = Inr (str ''null'')"
| "ToString (JBool b) = Inr (if b then str ''true'' else str ''false'')"
| "ToString (JNum n) = Inr (num_text n)"
| "ToString (JStr s) = Inr s"
| "ToString (JArr vs) =
     (case ToString_elements vs of Inl e \<Rightarrow> Inl e | Inr ss \<Rightarrow> Inr (join (str '','') ss))"
| "ToString (JObj kvs) =
     (if map_of kvs (str ''toString'') = None then Inr (str ''[object Object]'')
      else Inl (Other JUndefined (JStr (str ''Cannot convert object to primitive value''))))"
| "ToString_elements [] = Inr []"
| "ToString_elements (v # vs) =
     (case (if nullish v then Inr [] else ToString v) of
        Inl e \<Rightarrow> Inl e
      | Inr s \<Rightarrow> (case ToString_elements vs of Inl e \<Rightarrow> Inl e | Inr ss \<Rightarrow> Inr (s # ss)))"

text \<open>The handler shared by all six operations:
  \<^verbatim>\<open>throw new ApiError(BAD_REQUEST, error.response?.data?.message || error.message || fallback)\<close>.\<close>

definition rethrow :: "jsstring \<Rightarrow> thrown \<Rightarrow> ApiError" where
  "rethrow fallback e =
     ApiError BAD_REQUEST
       (js_or (js_or (optChain (optChain (error_response e) (str ''data'')) (str ''message''))
                     (error_message e))
              (JStr fallback))"

definition catching :: "jsstring \<Rightarrow> thrown + jsval \<Rightarrow> ApiError + jsval" where
  "catching fallback r = (case r of Inl e \<Rightarrow> Inl (rethrow fallback e) | Inr v \<Rightarrow> Inr v)"

section \<open>Types of \<^verbatim>\<open>flutterwave.ts\<close>\<close>

datatype AuthorizationMode = PIN | OTP | REDIRECT | NONE | AVS_NOAUTH

fun AuthorizationMode_value :: "AuthorizationMode \<Rightarrow> jsstring" where
  "AuthorizationMode_value PIN = str ''pin''"
| "AuthorizationMode_value OTP = str ''otp''"
| "AuthorizationMode_value REDIRECT = str ''redirect''"
| "AuthorizationMode_value NONE = str ''none''"
| "AuthorizationMode_value AVS_NOAUTH = str ''avs_noauth''"

datatype PaymentStatus = PENDING | SUCCESS | FAILED | REQUIRES_AUTH | REQUIRES_VALIDATION

fun PaymentStatus_value :: "PaymentStatus \<Rightarrow> jsstring" where
  "PaymentStatus_value PENDING = str ''pending''"
| "PaymentStatus_value SUCCESS = str ''success''"
| "PaymentStatus_value FAILED = str ''failed''"
| "PaymentStatus_value REQUIRES_AUTH = str ''requires_auth''"
| "PaymentStatus_value REQUIRES_VALIDATION = str ''requires_validation''"

datatype PaymentAction =
  VALIDATE_OTP | VALIDATE_PIN | ACTION_REDIRECT | COMPLETE | ACTION_FAILED | VALIDATE_AVS | VOID

fun PaymentAction_value :: "PaymentAction \<Rightarrow> jsstring" where
  "PaymentAction_value VALIDATE_OTP = str ''validate_otp''"
| "PaymentAction_value VALIDATE_PIN = str ''validate_pin''"
| "PaymentAction_value ACTION_REDIRECT = str ''redirect''"
| "PaymentAction_value COMPLETE = str ''complete''"
| "PaymentAction_value ACTION_FAILED = str ''failed''"
| "PaymentAction_value VALIDATE_AVS = str ''validate_avs''"
| "PaymentAction_value VOID = str ''void''"

record FlutterwaveConfig =
  publicKey :: jsstring
  secretKey :: jsstring
  encryptionKey :: jsstring
  redirectUrl :: jsstring
  isTestMode :: bool

record TokenizedChargeData =
  token :: jsstring
  email :: jsstring
  amount :: jsnum
  tx_ref :: jsstring
  currency :: "jsstring option"
  narration :: jsstring

text \<open>The inline type of \<^verbatim>\<open>CardPaymentData.authorization\<close>.\<close>

record authorization =
  mode :: AuthorizationMode
  pin :: "jsstring option"
  otp :: "jsstring option"
  city :: "jsstring option"
  address :: "jsstring option"
  state :: "jsstring option"
  country :: "jsstring option"
  zipcode :: "jsnum option"

record CardPaymentData =
  card_number :: jsstring
  cvv :: jsstring
  expiry_month :: jsstring
  expiry_year :: jsstring
  amount :: jsnum
  email :: jsstring
  tx_ref :: jsstring
  currency :: "jsstring option"
  fullname :: "jsstring option"
  preauthorize :: "bool option"
  authorization :: "authorization option"

text \<open>An optional field read as a value: undefined when it is absent.\<close>

definition opt_str :: "jsstring option \<Rightarrow> jsval" where
  "opt_str x = (case x of None \<Rightarrow> JUndefined | Some s \<Rightarrow> JStr s)"

definition opt_num :: "jsnum option \<Rightarrow> jsval" where
  "opt_num x = (case x of None \<Rightarrow> JUndefined | Some n \<Rightarrow> JNum n)"

definition opt_bool :: "bool option \<Rightarrow> jsval" where
  "opt_bool x = (case x of None \<Rightarrow> JUndefined | Some b \<Rightarrow> JBool b)"

section \<open>Library functions used by the encoder\<close>

text \<open>
  \<^verbatim>\<open>JSON.stringify\<close>. A property whose value is undefined is left out of an object, an
  undefined array element is written \<^verbatim>\<open>null\<close>, and the serialization of undefined itself
  is undefined (\<open>None\<close>). A finite number is written as \<^verbatim>\<open>toString\<close> prints it, any
  other number as \<^verbatim>\<open>null\<close>. In a string the control characters, the quote and the
  backslash are escaped, and so is a surrogate that has no partner; everything else is
  written as it is. Properties are written in list order, which is the order of
  JavaScript for keys that are not array indices.
\<close>

definition hex_digit :: "nat \<Rightarrow> nat" where
  "hex_digit n = (if n < 10 then 48 + n else 87 + n)"

definition UnicodeEscape :: "nat \<Rightarrow> jsstring" where
  "UnicodeEscape c =
     str [CHR 0x5C, CHR ''u'']
     @ [hex_digit (c div 4096 mod 16), hex_digit (c div 256 mod 16),
        hex_digit (c div 16 mod 16), hex_digit (c mod 16)]"

definition leading_surrogate :: "nat \<Rightarrow> bool" where
  "leading_surrogate c = (0xD800 \<le> c \<and> c \<le> 0xDBFF)"

definition trailing_surrogate :: "nat \<Rightarrow> bool" where
  "trailing_surrogate c = (0xDC00 \<le> c \<and> c \<le> 0xDFFF)"

definition quote_unit :: "nat \<Rightarrow> jsstring" where
  "quote_unit c =
     (if c = 8 then str [CHR 0x5C, CHR ''b'']
      else if c = 9 then str [CHR 0x5C, CHR ''t'']
      else if c = 10 then str [CHR 0x5C, CHR ''n'']
      else if c = 12 then str [CHR 0x5C, CHR ''f'']
      else if c = 13 then str [CHR 0x5C, CHR ''r'']
      else if c = 34 then str [CHR 0x5C, CHR 0x22]
      else if c = 92 then str [CHR 0x5C, CHR 0x5C]
      else if c < 32 then UnicodeEscape c
      else [c])"

fun quote_units :: "jsstring \<Rightarrow> jsstring" where
  "quote_units [] = []"
| "quote_units [c] =
     (if leading_surrogate c \<or> trailing_surrogate c then UnicodeEscape c else quote_unit c)"
| "quote_units (c # d # cs) =
     (if leading_surrogate c \<and> trailing_surrogate d then c # d # quote_units cs
      else if leading_surrogate c \<or> trailing_surrogate c
      then UnicodeEscape c @ quote_units (d # cs)
      else quote_unit c @ quote_units (d # cs))"

definition QuoteJSONString :: "jsstring \<Rightarrow> jsstring" where
  "QuoteJSONString s = str [CHR 0x22] @ quote_units s @ str [CHR 0x22]"

fun SerializeJSONProperty :: "jsval \<Rightarrow> jsstring option"
  and SerializeJSONObject :: "(jsstring \<times> jsval) list \<Rightarrow> jsstring list"
  and SerializeJSONArray :: "jsval list \<Rightarrow> jsstring list"
where
  "SerializeJSONProperty JUndefined = None"
| "SerializeJSONProperty JNull = Some (str ''null'')"
| "SerializeJSONProperty (JBool b) = Some (if b then str ''true'' else str ''false'')"
| "SerializeJSONProperty (JNum n) = Some (if num_finite n then num_text n else str ''null'')"
| "SerializeJSONProperty (JStr s) = Some (QuoteJSONString s)"
| "SerializeJSONProperty (JArr vs) =
     Some (str ''['' @ join (str '','') (SerializeJSONArray vs) @ str '']'')"
| "SerializeJSONProperty (JObj kvs) =
     Some (str ''{'' @ join (str '','') (SerializeJSONObject kvs) @ str ''}'')"
| "SerializeJSONObject [] = []"
| "SerializeJSONObject ((k, v) # kvs) =
     (case SerializeJSONProperty v of
        None \<Rightarrow> SerializeJSONObject kvs
      | Some t \<Rightarrow> (QuoteJSONString k @ str '':'' @ t) # SerializeJSONObject kvs)"
| "SerializeJSONArray [] = []"
| "SerializeJSONArray (v # vs) =
     (case SerializeJSONProperty v of None \<Rightarrow> str ''null'' | Some t \<Rightarrow> t)
     # SerializeJSONArray vs"

definition JSON_stringify :: "jsval \<Rightarrow> jsstring option" where
  "JSON_stringify v = SerializeJSONProperty v"

text \<open>
  The byte buffers of node-forge hold their bytes as a string, one character per byte.
  \<^verbatim>\<open>forge.util.createBuffer(input)\<close>, called as the service calls it, with no encoding
  (the default is \<^verbatim>\<open>'raw'\<close>), takes the string it is given as that string of bytes: it
  does not encode it, so that a character of code 256 or more is in the buffer as it is.
  The buffer of an undefined input is empty.
\<close>

type_synonym buffer = jsstring

definition createBuffer :: "jsstring option \<Rightarrow> buffer" where
  "createBuffer input = (case input of None \<Rightarrow> [] | Some s \<Rightarrow> s)"

text \<open>
  \<^verbatim>\<open>forge.util.encode64\<close> without a line length: base64 with \<^verbatim>\<open>=\<close> padding, computed
  from the character codes with shifts and masks; \<^verbatim>\<open>charAt\<close> gives the empty string
  for an index that is not below 64.
\<close>

definition base64_chars :: string where
  "base64_chars = ''ABCDEFGHIJKLMNOPQRSTUVWXYZabcdefghijklmnopqrstuvwxyz0123456789+/''"

definition charAt64 :: "nat \<Rightarrow> jsstring" where
  "charAt64 i = (if i < 64 then [of_char (base64_chars ! i)] else [])"

fun encode64 :: "jsstring \<Rightarrow> jsstring" where
  "encode64 [] = []"
| "encode64 [chr1] =
     charAt64 (drop_bit 2 chr1) @ charAt64 (push_bit 4 (chr1 AND 3)) @ str ''==''"
| "encode64 [chr1, chr2] =
     charAt64 (drop_bit 2 chr1) @ charAt64 (push_bit 4 (chr1 AND 3) OR drop_bit 4 chr2)
     @ charAt64 (push_bit 2 (chr2 AND 15)) @ str ''=''"
| "encode64 (chr1 # chr2 # chr3 # rest) =
     charAt64 (drop_bit 2 chr1) @ charAt64 (push_bit 4 (chr1 AND 3) OR drop_bit 4 chr2)
     @ charAt64 (push_bit 2 (chr2 AND 15) OR drop_bit 6 chr3) @ charAt64 (chr3 AND 63)
     @ encode64 rest"

text \<open>
  The cipher object of node-forge is a parameter of the model: \<open>C alg key iv input\<close>
  is what \<^verbatim>\<open>cipher.output.getBytes()\<close> returns after \<^verbatim>\<open>createCipher(alg, key)\<close>,
  \<^verbatim>\<open>start({iv})\<close>, \<^verbatim>\<open>update(input)\<close> and \<^verbatim>\<open>finish()\<close>, or the error one of these
  calls throws (on a key of the wrong size, for one).
\<close>

type_synonym cipher = "jsstring \<Rightarrow> buffer \<Rightarrow> jsstring \<Rightarrow> buffer \<Rightarrow> thrown + jsstring"

section \<open>The service\<close>

record process_env =
  FLUTTERWAVE_PUBLIC_KEY :: "jsstring option"
  FLUTTERWAVE_SECRET_KEY :: "jsstring option"
  FLUTTERWAVE_ENCRYPTION_KEY :: "jsstring option"
  FLUTTERWAVE_REDIRECT_URL :: "jsstring option"
  FLUTTERWAVE_TEST_MODE :: "jsstring option"

record FlutterwaveApiService =
  config :: FlutterwaveConfig
  baseUrl :: jsstring
  headers :: "(jsstring \<times> jsstring) list"

definition unset :: "jsstring option \<Rightarrow> bool" where
  "unset x = (\<not> truthy (opt_str x))"

definition constructor :: "process_env \<Rightarrow> ApiError + FlutterwaveApiService" where
  "constructor env =
     (if unset (FLUTTERWAVE_PUBLIC_KEY env) \<or> unset (FLUTTERWAVE_SECRET_KEY env)
         \<or> unset (FLUTTERWAVE_ENCRYPTION_KEY env) \<or> unset (FLUTTERWAVE_REDIRECT_URL env)
      then Inl (ApiError INTERNAL_SERVER_ERROR
                  (JStr (str ''Flutterwave configuration is incomplete'')))
      else
        (let cfg = \<lparr> publicKey = the (FLUTTERWAVE_PUBLIC_KEY env),
                      secretKey = the (FLUTTERWAVE_SECRET_KEY env),
                      encryptionKey = the (FLUTTERWAVE_ENCRYPTION_KEY env),
                      redirectUrl = the (FLUTTERWAVE_REDIRECT_URL env),
                      isTestMode = (FLUTTERWAVE_TEST_MODE env = Some (str ''true'')) \<rparr>
         in Inr \<lparr> config = cfg,
                  baseUrl = str ''https://api.flutterwave.com/v3'',
                  headers = [(str ''Content-Type'', str ''application/json''),
                             (str ''Authorization'', str ''Bearer '' @ secretKey cfg)] \<rparr>))"

text \<open>
  The HTTP client is a parameter of the model: \<open>T rq\<close> is \<^verbatim>\<open>response.data\<close> of the
  response to the request \<open>rq\<close>, or the error the client throws (no answer, or an answer
  with a failure status). Each operation returns the requests it has issued together
  with its outcome, so that "no request was attempted" is the empty list. The calls of
  the logger are left out: they change neither the requests nor the outcome; the
  evaluation of their arguments is kept where it can throw.
\<close>

datatype http_method = GET | POST

record request =
  http_method :: http_method
  url :: jsstring
  body :: jsval
  request_headers :: "(jsstring \<times> jsstring) list"

type_synonym transport = "request \<Rightarrow> thrown + jsval"

definition encryptCardData :: "cipher \<Rightarrow> FlutterwaveApiService \<Rightarrow> jsval \<Rightarrow> thrown + jsstring" where
  "encryptCardData C this payload =
     (let text = JSON_stringify payload in
      case C (str ''3DES-ECB'') (createBuffer (Some (encryptionKey (config this)))) []
             (createBuffer text) of
        Inl e \<Rightarrow> Inl e
      | Inr encrypted \<Rightarrow> Inr (encode64 encrypted))"

definition authorization_object :: "authorization \<Rightarrow> (jsstring \<times> jsval) list" where
  "authorization_object a =
     (let o0 = [(str ''mode'', JStr (toLocaleLowerCase (AuthorizationMode_value (mode a))))];
          o1 = (if mode a = PIN \<and> truthy (opt_str (pin a))
                then assign (str ''pin'') (opt_str (pin a)) o0 else o0);
          o2 = (if mode a = OTP \<and> truthy (opt_str (otp a))
                then assign (str ''otp'') (opt_str (otp a)) o1 else o1);
          o3 = (if truthy (opt_str (city a))
                then assign (str ''city'') (opt_str (city a)) o2 else o2);
          o4 = (if truthy (opt_str (address a))
                then assign (str ''address'') (opt_str (address a)) o3 else o3);
          o5 = (if truthy (opt_str (state a))
                then assign (str ''state'') (opt_str (state a)) o4 else o4);
          o6 = (if truthy (opt_str (country a))
                then assign (str ''country'') (opt_str (country a)) o5 else o5);
          o7 = (if truthy (opt_num (zipcode a))
                then assign (str ''zipcode'') (opt_num (zipcode a)) o6 else o6)
      in o7)"

definition cardData :: "process_env \<Rightarrow> CardPaymentData \<Rightarrow> jsval" where
  "cardData env d =
     (let cd = [(str ''card_number'', JStr (card_number d)),
                (str ''cvv'', JStr (cvv d)),
                (str ''expiry_month'', JStr (expiry_month d)),
                (str ''expiry_year'', JStr (expiry_year d)),
                (str ''email'', JStr (email d)),
                (str ''currency'', js_or (opt_str (currency d)) (JStr (str ''RWF''))),
                (str ''amount'', JStr (num_text (amount d))),
                (str ''tx_ref'', JStr (tx_ref d)),
                (str ''fullname'', opt_str (fullname d)),
                (str ''redirect_url'', opt_str (FLUTTERWAVE_REDIRECT_URL env)),
                (str ''payment_type'', JStr (str ''card'')),
                (str ''preauthorize'', opt_bool (preauthorize d)),
                (str ''device_fingerprint'', JStr (str ''device_fingerprint'')),
                (str ''client_ip'', JStr (str ''127.0.0.1''))]
      in JObj (case authorization d of
                 None \<Rightarrow> cd
               | Some a \<Rightarrow> assign (str ''authorization'') (JObj (authorization_object a)) cd))"

text \<open>The request of \<^verbatim>\<open>chargeCard\<close> (lines 102 to 113), for the card data \<open>cd\<close> and
  their ciphertext.\<close>

definition chargeCard_request :: "FlutterwaveApiService \<Rightarrow> jsval \<Rightarrow> jsstring \<Rightarrow> request" where
  "chargeCard_request this cd encryptedData =
     \<lparr> http_method = POST, url = baseUrl this @ str ''/charges?type=card'',
       body = JObj [(str ''client'', JStr encryptedData),
                    (str ''client_ip'', getProp cd (str ''client_ip'')),
                    (str ''device_fingerprint'', getProp cd (str ''device_fingerprint'')),
                    (str ''alg'', JStr (str ''3DES-24''))],
       request_headers = headers this \<rparr>"

text \<open>The part of \<^verbatim>\<open>chargeCard\<close> that follows the request, inside the \<^verbatim>\<open>try\<close>. The
  message for the logger is a template literal: it converts the mode hint to a string.\<close>

definition chargeCard_response :: "CardPaymentData \<Rightarrow> jsval \<Rightarrow> thrown + jsval" where
  "chargeCard_response d rdata =
     (case readProp rdata (str ''status'') of
        Inl e \<Rightarrow> Inl e
      | Inr st \<Rightarrow>
          if st = JStr (str ''error'')
          then Inl (Api (ApiError BAD_REQUEST (getProp rdata (str ''message''))))
          else if truthy (opt_bool (preauthorize d))
                  \<and> optChain (getProp rdata (str ''data'')) (str ''status'') = JStr (str ''pending'')
          then
            (let authMode = optChain (optChain (getProp rdata (str ''meta''))
                                        (str ''authorization'')) (str ''mode'')
             in if truthy authMode
                then (case ToString authMode of
                        Inl e \<Rightarrow> Inl e
                      | Inr info \<Rightarrow>
                         (case readProp (getProp rdata (str ''data'')) (str ''flw_ref'') of
                            Inl e \<Rightarrow> Inl e
                          | Inr ref \<Rightarrow>
                              Inr (JObj (assign (str ''flw_ref'') ref
                                        (assign (str ''validation_mode'') authMode
                                        (assign (str ''requires_validation'') (JBool True)
                                        (ownProps rdata)))))))
                else Inr rdata)
          else Inr rdata)"

definition chargeCard ::
  "cipher \<Rightarrow> transport \<Rightarrow> FlutterwaveApiService \<Rightarrow> process_env \<Rightarrow> CardPaymentData
   \<Rightarrow> request list \<times> (ApiError + jsval)" where
  "chargeCard C T this env d =
     (let cd = cardData env d in
      case encryptCardData C this cd of
        Inl e \<Rightarrow> ([], Inl (rethrow (str ''Card charge failed'') e))
      | Inr encryptedData \<Rightarrow>
          (let rq = chargeCard_request this cd encryptedData
           in ([rq],
               catching (str ''Card charge failed'')
                 (case T rq of Inl e \<Rightarrow> Inl e | Inr rdata \<Rightarrow> chargeCard_response d rdata))))"

text \<open>The check shared by the five other operations:
  \<^verbatim>\<open>if (response.data.status === 'error') throw new ApiError(...); return response.data\<close>.\<close>

definition plain_response :: "jsval \<Rightarrow> thrown + jsval" where
  "plain_response rdata =
     (case readProp rdata (str ''status'') of
        Inl e \<Rightarrow> Inl e
      | Inr st \<Rightarrow>
          if st = JStr (str ''error'')
          then Inl (Api (ApiError BAD_REQUEST (getProp rdata (str ''message''))))
          else Inr rdata)"

definition exchange ::
  "jsstring \<Rightarrow> transport \<Rightarrow> request \<Rightarrow> request list \<times> (ApiError + jsval)" where
  "exchange fallback T rq =
     ([rq], catching fallback (case T rq of Inl e \<Rightarrow> Inl e | Inr rdata \<Rightarrow> plain_response rdata))"

definition chargeWithToken_request :: "FlutterwaveApiService \<Rightarrow> TokenizedChargeData \<Rightarrow> request" where
  "chargeWithToken_request this d =
     \<lparr> http_method = POST, url = baseUrl this @ str ''/tokenized-charges'',
       body = JObj [(str ''token'', JStr (token d)),
                    (str ''currency'',
                     js_or (opt_str (TokenizedChargeData.currency d)) (JStr (str ''RWF''))),
                    (str ''amount'', JStr (num_text (TokenizedChargeData.amount d))),
                    (str ''email'', JStr (TokenizedChargeData.email d)),
                    (str ''tx_ref'', JStr (TokenizedChargeData.tx_ref d)),
                    (str ''redirect_url'', JStr (redirectUrl (config this)))],
       request_headers = headers this \<rparr>"

definition chargeWithToken ::
  "transport \<Rightarrow> FlutterwaveApiService \<Rightarrow> TokenizedChargeData
   \<Rightarrow> request list \<times> (ApiError + jsval)" where
  "chargeWithToken T this d =
     exchange (str ''Tokenized charge failed'') T (chargeWithToken_request this d)"

datatype charge_type = card | account

fun charge_type_value :: "charge_type \<Rightarrow> jsstring" where
  "charge_type_value card = str ''card''"
| "charge_type_value account = str ''account''"

text \<open>The third parameter of \<^verbatim>\<open>validateCharge\<close> defaults to \<^verbatim>\<open>'card'\<close>.\<close>

definition validateCharge_request ::
  "FlutterwaveApiService \<Rightarrow> jsstring \<Rightarrow> jsstring \<Rightarrow> charge_type option \<Rightarrow> request" where
  "validateCharge_request this flw_ref otp_code ty =
     (let type = (case ty of None \<Rightarrow> card | Some t \<Rightarrow> t)
      in \<lparr> http_method = POST, url = baseUrl this @ str ''/validate-charge'',
            body = JObj [(str ''otp'', JStr otp_code),
                         (str ''flw_ref'', JStr flw_ref),
                         (str ''type'', JStr (charge_type_value type))],
            request_headers = headers this \<rparr>)"

definition validateCharge ::
  "transport \<Rightarrow> FlutterwaveApiService \<Rightarrow> jsstring \<Rightarrow> jsstring \<Rightarrow> charge_type option
   \<Rightarrow> request list \<times> (ApiError + jsval)" where
  "validateCharge T this flw_ref otp_code ty =
     exchange (str ''Charge validation failed'') T
       (validateCharge_request this flw_ref otp_code ty)"

definition getCardBIN_request :: "FlutterwaveApiService \<Rightarrow> jsstring \<Rightarrow> request" where
  "getCardBIN_request this cardNumber =
     \<lparr> http_method = GET, url = baseUrl this @ str ''/card-bins/'' @ cardNumber,
       body = JUndefined, request_headers = headers this \<rparr>"

definition getCardBIN ::
  "transport \<Rightarrow> FlutterwaveApiService \<Rightarrow> jsstring \<Rightarrow> request list \<times> (ApiError + jsval)" where
  "getCardBIN T this cardNumber =
     exchange (str ''Card BIN lookup failed'') T (getCardBIN_request this cardNumber)"

definition verifyPayment_request :: "FlutterwaveApiService \<Rightarrow> jsstring \<Rightarrow> request" where
  "verifyPayment_request this transactionId =
     \<lparr> http_method = GET,
       url = baseUrl this @ str ''/transactions/'' @ transactionId @ str ''/verify'',
       body = JUndefined, request_headers = headers this \<rparr>"

definition verifyPayment ::
  "transport \<Rightarrow> FlutterwaveApiService \<Rightarrow> jsstring \<Rightarrow> request list \<times> (ApiError + jsval)" where
  "verifyPayment T this transactionId =
     exchange (str ''Payment verification failed'') T (verifyPayment_request this transactionId)"

definition voidPreauthorization_request :: "FlutterwaveApiService \<Rightarrow> jsstring \<Rightarrow> request" where
  "voidPreauthorization_request this transactionId =
     \<lparr> http_method = POST,
       url = baseUrl this @ str ''/charges/'' @ transactionId @ str ''/void'',
       body = JObj [], request_headers = headers this \<rparr>"

definition voidPreauthorization ::
  "transport \<Rightarrow> FlutterwaveApiService \<Rightarrow> jsstring \<Rightarrow> request list \<times> (ApiError + jsval)" where
  "voidPreauthorization T this transactionId =
     exchange (str ''Void preauthorization failed'') T
       (voidPreauthorization_request this transactionId)"

section \<open>Decoding, and reading a result\<close>

text \<open>
  UTF-8, for the comparison with what the cipher is given: a code unit below 128 is one
  byte, one below 2048 two bytes, a pair of surrogates the four bytes of its code point,
  a surrogate without partner the three bytes of the replacement character, any other
  code unit three bytes.
\<close>

definition utf8_1 :: "nat \<Rightarrow> jsstring" where
  "utf8_1 n =
     (if n < 128 then [n]
      else if n < 2048 then [(192 + n div 64), (128 + n mod 64)]
      else if n < 65536
      then [(224 + n div 4096), (128 + n div 64 mod 64), (128 + n mod 64)]
      else [(240 + n div 262144), (128 + n div 4096 mod 64),
            (128 + n div 64 mod 64), (128 + n mod 64)])"

fun utf8_encode :: "jsstring \<Rightarrow> jsstring" where
  "utf8_encode [] = []"
| "utf8_encode [c] =
     (if leading_surrogate c \<or> trailing_surrogate c then utf8_1 65533 else utf8_1 (c))"
| "utf8_encode (c # d # cs) =
     (if leading_surrogate c \<and> trailing_surrogate d
      then utf8_1 (65536 + (c - 55296) * 1024 + (d - 56320)) @ utf8_encode cs
      else if leading_surrogate c \<or> trailing_surrogate c
      then utf8_1 65533 @ utf8_encode (d # cs)
      else utf8_1 (c) @ utf8_encode (d # cs))"

text \<open>Base64 decoding of a padded text (\<^verbatim>\<open>=\<close> has index 64).\<close>

definition b64_index :: "nat \<Rightarrow> nat" where
  "b64_index c = length (takeWhile (\<lambda>x. of_char x \<noteq> c) base64_chars)"

fun decode64 :: "jsstring \<Rightarrow> jsstring" where
  "decode64 (e1 # e2 # e3 # e4 # rest) =
     (let n1 = b64_index e1; n2 = b64_index e2; n3 = b64_index e3; n4 = b64_index e4
      in (n1 * 4 + n2 div 16)
         # (if n3 = 64 then []
            else (n2 mod 16 * 16 + n3 div 4)
                 # (if n4 = 64 then [] else [(n3 mod 4 * 64 + n4)])))
     @ decode64 rest"
| "decode64 es = []"

text \<open>The gateway answered \<open>rdata\<close>: a request was issued, and \<open>rdata\<close> is the
  \<^verbatim>\<open>response.data\<close> the client returned for it.\<close>

definition answered :: "transport \<Rightarrow> request list \<Rightarrow> jsval \<Rightarrow> bool" where
  "answered T log rdata = (log \<noteq> [] \<and> (\<forall>rq \<in> set log. T rq = Inr rdata))"

text \<open>
  The body of the gateway that a reply of the HTTP client carries: \<^verbatim>\<open>response.data\<close>
  of a response, \<^verbatim>\<open>error.response?.data\<close> of the error thrown for an answer with a
  failure status. With the latter comes the client's own \<^verbatim>\<open>error.message\<close>.
\<close>

fun gateway_body :: "thrown + jsval \<Rightarrow> jsval" where
  "gateway_body (Inr rdata) = rdata"
| "gateway_body (Inl e) = optChain (error_response e) (str ''data'')"

fun client_message :: "thrown + jsval \<Rightarrow> jsval" where
  "client_message (Inr rdata) = JUndefined"
| "client_message (Inl e) = error_message e"

text \<open>\<^verbatim>\<open>CardChargeResponse\<close> of \<^verbatim>\<open>flutterwave.ts\<close> keeps the next action in
  \<^verbatim>\<open>data.nextAction\<close>.\<close>

definition nextAction :: "jsval \<Rightarrow> jsval" where
  "nextAction r = getProp (getProp r (str ''data'')) (str ''nextAction'')"

text \<open>The string \<open>s\<close> is a value somewhere inside \<open>v\<close>.\<close>

fun occurs :: "jsstring \<Rightarrow> jsval \<Rightarrow> bool"
  and occurs_props :: "jsstring \<Rightarrow> (jsstring \<times> jsval) list \<Rightarrow> bool"
  and occurs_list :: "jsstring \<Rightarrow> jsval list \<Rightarrow> bool"
where
  "occurs s JUndefined = False"
| "occurs s JNull = False"
| "occurs s (JBool b) = False"
| "occurs s (JNum n) = False"
| "occurs s (JStr t) = (s = t)"
| "occurs s (JArr vs) = occurs_list s vs"
| "occurs s (JObj kvs) = occurs_props s kvs"
| "occurs_props s [] = False"
| "occurs_props s ((k, v) # kvs) = (occurs s v \<or> occurs_props s kvs)"
| "occurs_list s [] = False"
| "occurs_list s (v # vs) = (occurs s v \<or> occurs_list s vs)"

section \<open>Concrete inputs\<close>

text \<open>An environment, the service constructed from it, card data and gateway bodies on
  which the operations are evaluated below.\<close>

definition sample_env :: process_env where
  "sample_env = \<lparr> FLUTTERWAVE_PUBLIC_KEY = Some (str ''FLWPUBK_TEST-1''),
                   FLUTTERWAVE_SECRET_KEY = Some (str ''FLWSECK_TEST-1''),
                   FLUTTERWAVE_ENCRYPTION_KEY = Some (str ''FLWSECK_TEST0123456789ab''),
                   FLUTTERWAVE_REDIRECT_URL = Some (str ''https://shop.example/return''),
                   FLUTTERWAVE_TEST_MODE = Some (str ''true'') \<rparr>"

definition sample_service :: FlutterwaveApiService where
  "sample_service =
     \<lparr> config = \<lparr> publicKey = str ''FLWPUBK_TEST-1'', secretKey = str ''FLWSECK_TEST-1'',
                   encryptionKey = str ''FLWSECK_TEST0123456789ab'',
                   redirectUrl = str ''https://shop.example/return'', isTestMode = True \<rparr>,
       baseUrl = str ''https://api.flutterwave.com/v3'',
       headers = [(str ''Content-Type'', str ''application/json''),
                  (str ''Authorization'', str ''Bearer FLWSECK_TEST-1'')] \<rparr>"

definition no_authorization :: authorization where
  "no_authorization = \<lparr> mode = NONE, pin = None, otp = None, city = None, address = None,
                         state = None, country = None, zipcode = None \<rparr>"

text \<open>The customer's name ends in the character of code 233, e with an acute accent.\<close>

definition sample_card :: CardPaymentData where
  "sample_card = \<lparr> card_number = str ''5531886652142950'', cvv = str ''564'',
                    expiry_month = str ''09'', expiry_year = str ''32'',
                    amount = JsNum (str ''1000'') True True, email = str ''jose@example.com'',
                    tx_ref = str ''tx-0001'', currency = None,
                    fullname = Some (str ''Jos'' @ [233]),
                    preauthorize = Some True, authorization = None \<rparr>"


definition pin_card_without_pin :: CardPaymentData where
  "pin_card_without_pin =
     sample_card \<lparr> preauthorize := None,
                   authorization := Some (no_authorization \<lparr> mode := PIN \<rparr>) \<rparr>"

definition sample_token_charge :: TokenizedChargeData where
  "sample_token_charge = \<lparr> token = str ''flw-t1nf-f9b3bf384cd30d6fca42b6df9d27bd2f-m03k'',
                            email = str ''jose@example.com'',
                            amount = JsNum (str ''1000'') True True, tx_ref = str ''tx-0002'',
                            currency = Some (str ''RWF''), narration = str ''renewal'' \<rparr>"

definition body_successful :: jsval where
  "body_successful = JObj [(str ''status'', JStr (str ''success'')),
                           (str ''data'', JObj [(str ''status'', JStr (str ''successful''))])]"

definition body_pending_otp :: jsval where
  "body_pending_otp =
     JObj [(str ''status'', JStr (str ''success'')),
           (str ''data'', JObj [(str ''status'', JStr (str ''pending'')),
                                (str ''flw_ref'', JStr (str ''FLW123''))]),
           (str ''meta'', JObj [(str ''authorization'',
                                 JObj [(str ''mode'', JStr (str ''otp''))])])]"

text \<open>\<^term>\<open>body_pending_otp\<close> with the three properties \<^verbatim>\<open>chargeCard\<close> adds.\<close>

definition pending_otp_result :: jsval where
  "pending_otp_result =
     JObj [(str ''status'', JStr (str ''success'')),
           (str ''data'', JObj [(str ''status'', JStr (str ''pending'')),
                                (str ''flw_ref'', JStr (str ''FLW123''))]),
           (str ''meta'', JObj [(str ''authorization'',
                                 JObj [(str ''mode'', JStr (str ''otp''))])]),
           (str ''requires_validation'', JBool True),
           (str ''validation_mode'', JStr (str ''otp'')),
           (str ''flw_ref'', JStr (str ''FLW123''))]"

text \<open>A pending body whose mode hint is the object \<^verbatim>\<open>{"toString": 1}\<close>.\<close>

definition body_pending_object :: jsval where
  "body_pending_object =
     JObj [(str ''status'', JStr (str ''success'')),
           (str ''data'', JObj [(str ''status'', JStr (str ''pending'')),
                                (str ''flw_ref'', JStr (str ''FLW123''))]),
           (str ''meta'', JObj [(str ''authorization'',
                                 JObj [(str ''mode'',
                                        JObj [(str ''toString'',
                                               JNum (JsNum (str ''1'') True True))])])])]"

definition body_failed :: jsval where
  "body_failed = JObj [(str ''status'', JStr (str ''success'')),
                       (str ''data'', JObj [(str ''status'', JStr (str ''failed''))])]"

definition body_error :: jsval where
  "body_error = JObj [(str ''status'', JStr (str ''error'')),
                      (str ''message'', JStr (str ''Invalid card''))]"

definition body_error_plain :: jsval where
  "body_error_plain = JObj [(str ''status'', JStr (str ''error''))]"

text \<open>The error the HTTP client throws for an answer with the status 400 and the body
  \<open>rdata\<close>.\<close>

definition status_400 :: "jsval \<Rightarrow> thrown" where
  "status_400 rdata =
     Other (JObj [(str ''status'', JNum (JsNum (str ''400'') True True)), (str ''data'', rdata)])
           (JStr (str ''Request failed with status code 400''))"

text \<open>A cipher to run the model with: the key must have 24 bytes, as a Triple-DES key
  has; the bytes of the input are reversed, so that the cipher is its own inverse.\<close>

definition sample_cipher :: cipher where
  "sample_cipher alg key iv input =
     (if length key = 24 then Inr (rev input)
      else Inl (Other JUndefined (JStr (str ''Invalid Triple-DES key size''))))"

subsection \<open>The cipher \<^verbatim>\<open>3DES-ECB\<close> of node-forge\<close>

text \<open>
  node-forge is a dependency, not part of the repository. This is the cipher its name
  \<^verbatim>\<open>3DES-ECB\<close> designates, as the library builds it: the Data Encryption Standard of
  FIPS 46-3 (initial permutation, sixteen Feistel rounds with the expansion, the eight
  selection functions and the permutation, final permutation; the key schedule with the
  two permuted choices), applied three times in the order encrypt, decrypt, encrypt with
  the three 8-byte parts of a 24-byte key; each block of eight elements of the buffer
  read as two 32-bit integers by \<^verbatim>\<open>getInt32\<close> and written by \<^verbatim>\<open>putInt32\<close>; the input
  padded to whole blocks with between one and eight elements that each hold their number
  (PKCS#7). Bits are listed from the most significant, and the tables count them from 1,
  as the standard does.
\<close>

type_synonym bits = "bool list"

definition permute :: "nat list \<Rightarrow> bits \<Rightarrow> bits" where
  "permute table bs = map (\<lambda>i. bs ! (i - 1)) table"

definition bits_of :: "nat \<Rightarrow> nat \<Rightarrow> bits" where
  "bits_of n w = map (bit w) (rev [0..<n])"

definition nat_of :: "bits \<Rightarrow> nat" where
  "nat_of bs = horner_sum of_bool 2 (rev bs)"

definition xor_bits :: "bits \<Rightarrow> bits \<Rightarrow> bits" where
  "xor_bits a b = map2 (\<noteq>) a b"

definition DES_IP :: "nat list" where
  "DES_IP =
     [58, 50, 42, 34, 26, 18, 10, 2, 60, 52, 44, 36, 28, 20, 12, 4, 62, 54, 46, 38, 30,
      22, 14, 6, 64, 56, 48, 40, 32, 24, 16, 8, 57, 49, 41, 33, 25, 17, 9, 1, 59, 51, 43,
      35, 27, 19, 11, 3, 61, 53, 45, 37, 29, 21, 13, 5, 63, 55, 47, 39, 31, 23, 15, 7]"

definition DES_FP :: "nat list" where
  "DES_FP =
     [40, 8, 48, 16, 56, 24, 64, 32, 39, 7, 47, 15, 55, 23, 63, 31, 38, 6, 46, 14, 54, 22,
      62, 30, 37, 5, 45, 13, 53, 21, 61, 29, 36, 4, 44, 12, 52, 20, 60, 28, 35, 3, 43, 11,
      51, 19, 59, 27, 34, 2, 42, 10, 50, 18, 58, 26, 33, 1, 41, 9, 49, 17, 57, 25]"

definition DES_E :: "nat list" where
  "DES_E =
     [32, 1, 2, 3, 4, 5, 4, 5, 6, 7, 8, 9, 8, 9, 10, 11, 12, 13, 12, 13, 14, 15, 16, 17,
      16, 17, 18, 19, 20, 21, 20, 21, 22, 23, 24, 25, 24, 25, 26, 27, 28, 29, 28, 29, 30,
      31, 32, 1]"

definition DES_P :: "nat list" where
  "DES_P =
     [16, 7, 20, 21, 29, 12, 28, 17, 1, 15, 23, 26, 5, 18, 31, 10, 2, 8, 24, 14, 32, 27,
      3, 9, 19, 13, 30, 6, 22, 11, 4, 25]"

definition DES_PC1 :: "nat list" where
  "DES_PC1 =
     [57, 49, 41, 33, 25, 17, 9, 1, 58, 50, 42, 34, 26, 18, 10, 2, 59, 51, 43, 35, 27, 19,
      11, 3, 60, 52, 44, 36, 63, 55, 47, 39, 31, 23, 15, 7, 62, 54, 46, 38, 30, 22, 14, 6,
      61, 53, 45, 37, 29, 21, 13, 5, 28, 20, 12, 4]"

definition DES_PC2 :: "nat list" where
  "DES_PC2 =
     [14, 17, 11, 24, 1, 5, 3, 28, 15, 6, 21, 10, 23, 19, 12, 4, 26, 8, 16, 7, 27, 20, 13,
      2, 41, 52, 31, 37, 47, 55, 30, 40, 51, 45, 33, 48, 44, 49, 39, 56, 34, 53, 46, 42,
      50, 36, 29, 32]"

definition DES_shifts :: "nat list" where
  "DES_shifts =
     [1, 1, 2, 2, 2, 2, 2, 2, 1, 2, 2, 2, 2, 2, 2, 1]"

definition DES_S :: "nat list list" where
  "DES_S =
     [[14, 4, 13, 1, 2, 15, 11, 8, 3, 10, 6, 12, 5, 9, 0, 7, 0, 15, 7, 4, 14, 2, 13, 1, 10,
       6, 12, 11, 9, 5, 3, 8, 4, 1, 14, 8, 13, 6, 2, 11, 15, 12, 9, 7, 3, 10, 5, 0, 15, 12,
       8, 2, 4, 9, 1, 7, 5, 11, 3, 14, 10, 0, 6, 13],
      [15, 1, 8, 14, 6, 11, 3, 4, 9, 7, 2, 13, 12, 0, 5, 10, 3, 13, 4, 7, 15, 2, 8, 14, 12,
       0, 1, 10, 6, 9, 11, 5, 0, 14, 7, 11, 10, 4, 13, 1, 5, 8, 12, 6, 9, 3, 2, 15, 13, 8,
       10, 1, 3, 15, 4, 2, 11, 6, 7, 12, 0, 5, 14, 9],
      [10, 0, 9, 14, 6, 3, 15, 5, 1, 13, 12, 7, 11, 4, 2, 8, 13, 7, 0, 9, 3, 4, 6, 10, 2,
       8, 5, 14, 12, 11, 15, 1, 13, 6, 4, 9, 8, 15, 3, 0, 11, 1, 2, 12, 5, 10, 14, 7, 1,
       10, 13, 0, 6, 9, 8, 7, 4, 15, 14, 3, 11, 5, 2, 12],
      [7, 13, 14, 3, 0, 6, 9, 10, 1, 2, 8, 5, 11, 12, 4, 15, 13, 8, 11, 5, 6, 15, 0, 3, 4,
       7, 2, 12, 1, 10, 14, 9, 10, 6, 9, 0, 12, 11, 7, 13, 15, 1, 3, 14, 5, 2, 8, 4, 3, 15,
       0, 6, 10, 1, 13, 8, 9, 4, 5, 11, 12, 7, 2, 14],
      [2, 12, 4, 1, 7, 10, 11, 6, 8, 5, 3, 15, 13, 0, 14, 9, 14, 11, 2, 12, 4, 7, 13, 1, 5,
       0, 15, 10, 3, 9, 8, 6, 4, 2, 1, 11, 10, 13, 7, 8, 15, 9, 12, 5, 6, 3, 0, 14, 11, 8,
       12, 7, 1, 14, 2, 13, 6, 15, 0, 9, 10, 4, 5, 3],
      [12, 1, 10, 15, 9, 2, 6, 8, 0, 13, 3, 4, 14, 7, 5, 11, 10, 15, 4, 2, 7, 12, 9, 5, 6,
       1, 13, 14, 0, 11, 3, 8, 9, 14, 15, 5, 2, 8, 12, 3, 7, 0, 4, 10, 1, 13, 11, 6, 4, 3,
       2, 12, 9, 5, 15, 10, 11, 14, 1, 7, 6, 0, 8, 13],
      [4, 11, 2, 14, 15, 0, 8, 13, 3, 12, 9, 7, 5, 10, 6, 1, 13, 0, 11, 7, 4, 9, 1, 10, 14,
       3, 5, 12, 2, 15, 8, 6, 1, 4, 11, 13, 12, 3, 7, 14, 10, 15, 6, 8, 0, 5, 9, 2, 6, 11,
       13, 8, 1, 4, 10, 7, 9, 5, 0, 15, 14, 2, 3, 12],
      [13, 2, 8, 4, 6, 15, 11, 1, 10, 9, 3, 14, 5, 0, 12, 7, 1, 15, 13, 8, 10, 3, 7, 4, 12,
       5, 6, 11, 0, 14, 9, 2, 7, 11, 4, 1, 9, 12, 14, 2, 0, 6, 10, 13, 15, 3, 5, 8, 2, 1,
       14, 7, 4, 10, 8, 13, 15, 12, 9, 0, 3, 5, 6, 11]]"
text \<open>A selection function takes six bits: the first and the last choose the row of its
  table, the four between them the column; the entry is its four output bits.\<close>

definition sbox :: "nat list \<Rightarrow> bits \<Rightarrow> bits" where
  "sbox S b = bits_of 4 (S ! (nat_of [b ! 0, b ! 5] * 16 + nat_of (take 4 (drop 1 b))))"

fun sixes :: "bits \<Rightarrow> bits list" where
  "sixes (a # b # c # d # e # f # rest) = [a, b, c, d, e, f] # sixes rest"
| "sixes rest = []"

definition DES_f :: "bits \<Rightarrow> bits \<Rightarrow> bits" where
  "DES_f r k =
     permute DES_P (concat (map2 sbox DES_S (sixes (xor_bits (permute DES_E r) k))))"

fun subkeys_from :: "nat list \<Rightarrow> bits \<Rightarrow> bits \<Rightarrow> bits list" where
  "subkeys_from [] c d = []"
| "subkeys_from (s # ss) c d =
     permute DES_PC2 (rotate s c @ rotate s d) # subkeys_from ss (rotate s c) (rotate s d)"

definition DES_subkeys :: "bits \<Rightarrow> bits list" where
  "DES_subkeys key =
     (let cd = permute DES_PC1 key in subkeys_from DES_shifts (take 28 cd) (drop 28 cd))"

fun feistel :: "bits list \<Rightarrow> bits \<times> bits \<Rightarrow> bits \<times> bits" where
  "feistel [] lr = lr"
| "feistel (k # ks) (l, r) = feistel ks (r, xor_bits l (DES_f r k))"

text \<open>One block through the standard with the round keys \<open>ks\<close>: in their order it is
  encrypted, in the reverse order decrypted.\<close>

definition DES_block :: "bits list \<Rightarrow> bits \<Rightarrow> bits" where
  "DES_block ks b =
     (let ip = permute DES_IP b;
          lr = feistel ks (take 32 ip, drop 32 ip)
      in permute DES_FP (snd lr @ fst lr))"

text \<open>
  \<^verbatim>\<open>getInt32\<close> of a buffer is
  \<^verbatim>\<open>charCodeAt(read) << 24 ^ charCodeAt(read + 1) << 16 ^ charCodeAt(read + 2) << 8 ^ charCodeAt(read + 3)\<close>
  on 32-bit integers: four bytes side by side when every element is below 256, and
  overlapping bits when one is not. \<^verbatim>\<open>putInt32\<close> appends the four bytes of an integer.
\<close>

definition getInt32 :: "nat \<Rightarrow> nat \<Rightarrow> nat \<Rightarrow> nat \<Rightarrow> nat" where
  "getInt32 c0 c1 c2 c3 =
     take_bit 32 (push_bit 24 c0 XOR push_bit 16 c1 XOR push_bit 8 c2 XOR c3)"


definition block_bits :: "buffer \<Rightarrow> bits" where
  "block_bits blk =
     bits_of 32 (getInt32 (blk ! 0) (blk ! 1) (blk ! 2) (blk ! 3))
     @ bits_of 32 (getInt32 (blk ! 4) (blk ! 5) (blk ! 6) (blk ! 7))"


definition DES3_keys :: "buffer \<Rightarrow> bits list \<times> bits list \<times> bits list" where
  "DES3_keys key =
     (DES_subkeys (block_bits (take 8 key)),
      DES_subkeys (block_bits (take 8 (drop 8 key))),
      DES_subkeys (block_bits (take 8 (drop 16 key))))"


definition DES3_decrypt_block :: "buffer \<Rightarrow> bits \<Rightarrow> bits" where
  "DES3_decrypt_block key b =
     (case DES3_keys key of
        (k1, k2, k3) \<Rightarrow> DES_block (rev k1) (DES_block k2 (DES_block (rev k3) b)))"





section \<open>Basic facts\<close>

lemma str_inject [simp]: "str a = str b \<longleftrightarrow> a = b"
  unfolding str_def by (simp add: inj_map_eq_map inj_of_char)

lemma str_Nil [simp]: "str [] = []"
  by (simp add: str_def)

lemma str_not_Nil [simp]: "str (c # cs) \<noteq> []"
  by (simp add: str_def)

lemma optChain_getProp: "optChain v k = getProp v k"
  by (cases v) (simp_all add: optChain_def)

lemma getProp_defined: "getProp v k \<noteq> JUndefined \<Longrightarrow> \<not> nullish v"
  by (cases v) simp_all

lemma getProp_object: "getProp v k \<noteq> JUndefined \<Longrightarrow> JObj (ownProps v) = v"
  by (cases v) simp_all

lemma getProp_assign:
  "getProp (JObj (assign k v kvs)) k' = (if k' = k then v else getProp (JObj kvs) k')"
  by (simp add: assign_def update_conv')

lemma truthy_preauthorize: "truthy (opt_bool p) = (p = Some True)"
  by (cases p) (simp_all add: opt_bool_def)

lemma rethrow_Api:
  "rethrow fallback (Api (ApiError c m)) = ApiError BAD_REQUEST (js_or m (JStr fallback))"
  by (simp add: rethrow_def optChain_def js_or_def)

lemma rethrow_reply:
  "rethrow fallback e =
     ApiError BAD_REQUEST
       (js_or (js_or (getProp (gateway_body (Inl e)) (str ''message'')) (client_message (Inl e)))
              (JStr fallback))"
  by (simp add: rethrow_def optChain_getProp)

lemma ToString_string: "ToString (JStr s) = Inr s"
  by simp

subsection \<open>The card data and the request\<close>

lemma cardData_fixed:
  "getProp (cardData env d) (str ''client_ip'') = JStr (str ''127.0.0.1'')"
  "getProp (cardData env d) (str ''device_fingerprint'') = JStr (str ''device_fingerprint'')"
  by (cases "authorization d"; simp add: cardData_def getProp_assign
        del: getProp.simps; simp)+

lemma stringify_object: "\<exists>jtext. JSON_stringify (JObj kvs) = Some jtext"
  by (simp add: JSON_stringify_def)

lemma cardData_object: "\<exists>kvs. cardData env d = JObj kvs"
  by (simp add: cardData_def Let_def)

lemma encryptCardData_eq:
  "encryptCardData C this payload =
     (case C (str ''3DES-ECB'') (encryptionKey (config this)) []
             (case JSON_stringify payload of None \<Rightarrow> [] | Some jtext \<Rightarrow> jtext) of
        Inl e \<Rightarrow> Inl e
      | Inr out \<Rightarrow> Inr (encode64 out))"
  by (simp add: encryptCardData_def createBuffer_def split: option.splits)

lemma chargeCard_request_eq:
  "chargeCard_request this (cardData env d) ct =
     \<lparr> http_method = POST, url = baseUrl this @ str ''/charges?type=card'',
       body = JObj [(str ''client'', JStr ct), (str ''client_ip'', JStr (str ''127.0.0.1'')),
                    (str ''device_fingerprint'', JStr (str ''device_fingerprint'')),
                    (str ''alg'', JStr (str ''3DES-24''))],
       request_headers = headers this \<rparr>"
  by (simp add: chargeCard_request_def cardData_fixed del: getProp.simps)

lemma chargeCard_thrown:
  assumes "encryptCardData C this (cardData env d) = Inl e"
  shows "chargeCard C T this env d = ([], Inl (rethrow (str ''Card charge failed'') e))"
  using assms by (simp add: chargeCard_def)

lemma chargeCard_sent:
  assumes "encryptCardData C this (cardData env d) = Inr ct"
  shows "chargeCard C T this env d =
           ([chargeCard_request this (cardData env d) ct],
            catching (str ''Card charge failed'')
              (case T (chargeCard_request this (cardData env d) ct) of
                 Inl e \<Rightarrow> Inl e
               | Inr rdata \<Rightarrow> chargeCard_response d rdata))"
  using assms by (simp add: chargeCard_def Let_def)

lemma chargeCard_answered:
  assumes "answered T (fst (chargeCard C T this env d)) rdata"
  shows "snd (chargeCard C T this env d)
           = catching (str ''Card charge failed'') (chargeCard_response d rdata)"
proof (cases "encryptCardData C this (cardData env d)")
  case (Inl e)
  with assms show ?thesis by (simp add: chargeCard_thrown answered_def)
next
  case (Inr ct)
  with assms show ?thesis by (simp add: chargeCard_sent answered_def)
qed

lemma answered_constant:
  assumes "encryptCardData C this (cardData env d) = Inr ct"
  shows "answered (\<lambda>rq. Inr rdata) (fst (chargeCard C (\<lambda>rq. Inr rdata) this env d)) rdata"
  using assms by (simp add: chargeCard_sent answered_def)

lemma exchange_answered:
  assumes "answered T (fst (exchange fallback T rq)) rdata"
  shows "snd (exchange fallback T rq) = catching fallback (plain_response rdata)"
  using assms by (simp add: exchange_def answered_def)

subsection \<open>The checks on the gateway body\<close>

lemma chargeCard_response_error:
  assumes "getProp rdata (str ''status'') = JStr (str ''error'')"
  shows "chargeCard_response d rdata
           = Inl (Api (ApiError BAD_REQUEST (getProp rdata (str ''message''))))"
proof -
  from assms have "\<not> nullish rdata" by (intro getProp_defined [of rdata "str ''status''"]) simp
  with assms show ?thesis by (simp add: chargeCard_response_def readProp_def)
qed

lemma plain_response_error:
  assumes "getProp rdata (str ''status'') = JStr (str ''error'')"
  shows "plain_response rdata = Inl (Api (ApiError BAD_REQUEST (getProp rdata (str ''message''))))"
proof -
  from assms have "\<not> nullish rdata" by (intro getProp_defined [of rdata "str ''status''"]) simp
  with assms show ?thesis by (simp add: plain_response_def readProp_def)
qed

lemma plain_response_other:
  assumes "\<not> nullish rdata" and "getProp rdata (str ''status'') \<noteq> JStr (str ''error'')"
  shows "plain_response rdata = Inr rdata"
  using assms by (simp add: plain_response_def readProp_def)

lemma chargeCard_response_other:
  assumes "\<not> nullish rdata" and "getProp rdata (str ''status'') \<noteq> JStr (str ''error'')"
    and "\<not> (preauthorize d = Some True
            \<and> getProp (getProp rdata (str ''data'')) (str ''status'') = JStr (str ''pending'')
            \<and> truthy (getProp (getProp (getProp rdata (str ''meta'')) (str ''authorization''))
                         (str ''mode'')))"
  shows "chargeCard_response d rdata = Inr rdata"
  using assms
  by (auto simp add: chargeCard_response_def readProp_def optChain_getProp truthy_preauthorize
        Let_def)

lemma chargeCard_response_pending:
  assumes "getProp rdata (str ''status'') \<noteq> JStr (str ''error'')"
    and "preauthorize d = Some True"
    and "getProp (getProp rdata (str ''data'')) (str ''status'') = JStr (str ''pending'')"
    and "truthy (getProp (getProp (getProp rdata (str ''meta'')) (str ''authorization''))
                   (str ''mode''))"
  shows "chargeCard_response d rdata =
           (case ToString (getProp (getProp (getProp rdata (str ''meta'')) (str ''authorization''))
                             (str ''mode'')) of
              Inl e \<Rightarrow> Inl e
            | Inr info \<Rightarrow>
                Inr (JObj (assign (str ''flw_ref'') (getProp (getProp rdata (str ''data'')) (str ''flw_ref''))
                          (assign (str ''validation_mode'')
                             (getProp (getProp (getProp rdata (str ''meta'')) (str ''authorization''))
                                (str ''mode''))
                          (assign (str ''requires_validation'') (JBool True) (ownProps rdata))))))"
proof -
  from assms(3) have d: "\<not> nullish (getProp rdata (str ''data''))"
    by (intro getProp_defined [of _ "str ''status''"]) simp
  then have "getProp rdata (str ''data'') \<noteq> JUndefined" by auto
  then have "\<not> nullish rdata" by (rule getProp_defined)
  with assms d show ?thesis
    by (simp add: chargeCard_response_def readProp_def optChain_getProp truthy_preauthorize
          Let_def split: sum.splits)
qed

subsection \<open>Base64 on bytes\<close>

lemma takeWhile_nth_distinct:
  "distinct xs \<Longrightarrow> n < length xs \<Longrightarrow> length (takeWhile (\<lambda>x. x \<noteq> xs ! n) xs) = n"
proof (induction xs arbitrary: n)
  case Nil
  then show ?case by simp
next
  case (Cons a xs)
  show ?case
  proof (cases n)
    case 0
    then show ?thesis by simp
  next
    case (Suc m)
    with Cons.prems have "a \<noteq> xs ! m" "distinct xs" "m < length xs" by auto
    with Cons.IH [of m] Suc show ?thesis by simp
  qed
qed

lemma distinct_base64_chars: "distinct base64_chars"
  by (simp add: base64_chars_def)

lemma length_base64_chars: "length base64_chars = 64"
  by (simp add: base64_chars_def)

lemma b64_index_charAt: "n < 64 \<Longrightarrow> b64_index (of_char (base64_chars ! n)) = n"
  unfolding b64_index_def
  using takeWhile_nth_distinct [OF distinct_base64_chars, of n]
  by (simp add: length_base64_chars)

lemma b64_index_pad: "b64_index 61 = 64"
  by (simp add: b64_index_def base64_chars_def)

lemma or_plus:
  fixes x y :: nat
  assumes "y < 2 ^ n"
  shows "push_bit n x OR y = x * 2 ^ n + y"
proof -
  have y: "take_bit n y = y" using assms by (simp add: take_bit_nat_eq_self)
  have "push_bit n x AND take_bit n y = 0"
    by (rule bit_eqI) (auto simp add: bit_simps)
  then have "push_bit n x + y = push_bit n x OR y"
    using disjunctive_add_eq_or [of "push_bit n x" y] y by simp
  then show ?thesis by (simp add: push_bit_eq_mult)
qed

lemma and_low:
  fixes a :: nat
  shows "a AND 3 = a mod 4" and "a AND 15 = a mod 16" and "a AND 63 = a mod 64"
proof -
  have "a AND mask 2 = a mod 2 ^ 2" "a AND mask 4 = a mod 2 ^ 4" "a AND mask 6 = a mod 2 ^ 6"
    by (simp_all only: take_bit_eq_mod flip: take_bit_eq_mask)
  then show "a AND 3 = a mod 4" and "a AND 15 = a mod 16" and "a AND 63 = a mod 64"
    by (simp_all add: mask_eq_exp_minus_1)
qed

text \<open>The four indices \<^verbatim>\<open>encode64\<close> computes from three bytes.\<close>

lemma sextets:
  fixes a b c :: nat
  assumes "b < 256" "c < 256"
  shows "drop_bit 2 a = a div 4"
    and "push_bit 4 (a AND 3) = a mod 4 * 16"
    and "a mod 4 * 16 OR drop_bit 4 b = a mod 4 * 16 + b div 16"
    and "push_bit 2 (b AND 15) = b mod 16 * 4"
    and "b mod 16 * 4 OR drop_bit 6 c = b mod 16 * 4 + c div 64"
    and "c AND 63 = c mod 64"
proof -
  have b16: "b div 16 < 2 ^ 4" and c64: "c div 64 < 2 ^ 2"
    using assms by simp_all
  show "drop_bit 2 a = a div 4" by (simp add: drop_bit_eq_div)
  show "push_bit 4 (a AND 3) = a mod 4 * 16" by (simp add: and_low push_bit_eq_mult)
  show "a mod 4 * 16 OR drop_bit 4 b = a mod 4 * 16 + b div 16"
    using or_plus [OF b16, of "a mod 4"] by (simp add: push_bit_eq_mult drop_bit_eq_div)
  show "push_bit 2 (b AND 15) = b mod 16 * 4" by (simp add: and_low push_bit_eq_mult)
  show "b mod 16 * 4 OR drop_bit 6 c = b mod 16 * 4 + c div 64"
    using or_plus [OF c64, of "b mod 16"] by (simp add: push_bit_eq_mult drop_bit_eq_div)
  show "c AND 63 = c mod 64" by (rule and_low)
qed

lemma sextet_bounds:
  fixes a b c :: nat
  assumes "a < 256" "b < 256" "c < 256"
  shows "a div 4 < 64" and "a mod 4 * 16 < 64" and "a mod 4 * 16 + b div 16 < 64"
    and "b mod 16 * 4 < 64" and "b mod 16 * 4 + c div 64 < 64" and "c mod 64 < 64"
proof -
  have b16: "b div 16 < 16" and c64: "c div 64 < 4"
    using assms by simp_all
  have m: "a mod 4 < 4" "b mod 16 < 16" by simp_all
  show "a div 4 < 64" using assms by simp
  show "a mod 4 * 16 < 64" "b mod 16 * 4 < 64" using m by linarith+
  show "a mod 4 * 16 + b div 16 < 64" "b mod 16 * 4 + c div 64 < 64"
    using m b16 c64 by linarith+
  show "c mod 64 < 64" by simp
qed

lemma sextet_bytes:
  fixes a b c :: nat
  assumes "a < 256" "b < 256" "c < 256"
  shows "a div 4 * 4 + (a mod 4 * 16 + b div 16) div 16 = a"
    and "(a mod 4 * 16 + b div 16) mod 16 * 16 + (b mod 16 * 4 + c div 64) div 4 = b"
    and "(b mod 16 * 4 + c div 64) mod 4 * 64 + c mod 64 = c"
    and "b mod 16 * 4 + c div 64 \<noteq> 64"
    and "c mod 64 \<noteq> 64"
proof -
  have b16: "b div 16 < 16" and c64: "c div 64 < 4"
    using assms by simp_all
  have "b mod 16 < 16" by simp
  then have s3: "b mod 16 * 4 + c div 64 < 64" using c64 by linarith
  have d2: "(a mod 4 * 16 + b div 16) div 16 = a mod 4"
    and m2: "(a mod 4 * 16 + b div 16) mod 16 = b div 16"
    using b16 by simp_all
  have d3: "(b mod 16 * 4 + c div 64) div 4 = b mod 16"
    and m3: "(b mod 16 * 4 + c div 64) mod 4 = c div 64"
    using c64 by simp_all
  show "a div 4 * 4 + (a mod 4 * 16 + b div 16) div 16 = a"
    by (simp add: d2)
  show "(a mod 4 * 16 + b div 16) mod 16 * 16 + (b mod 16 * 4 + c div 64) div 4 = b"
    using b16 by (simp add: m2 d3)
  show "(b mod 16 * 4 + c div 64) mod 4 * 64 + c mod 64 = c"
    using c64 by (simp add: m3)
  show "b mod 16 * 4 + c div 64 \<noteq> 64" "c mod 64 \<noteq> 64"
    using s3 by simp_all
qed

lemma encode64_bytes:
  assumes "a < 256" "b < 256" "c < 256"
  shows "encode64 [a] =
           [of_char (base64_chars ! (a div 4)), of_char (base64_chars ! (a mod 4 * 16)), 61, 61]"
    and "encode64 [a, b] =
           [of_char (base64_chars ! (a div 4)),
            of_char (base64_chars ! (a mod 4 * 16 + b div 16)),
            of_char (base64_chars ! (b mod 16 * 4)), 61]"
    and "encode64 (a # b # c # rest) =
           [of_char (base64_chars ! (a div 4)),
            of_char (base64_chars ! (a mod 4 * 16 + b div 16)),
            of_char (base64_chars ! (b mod 16 * 4 + c div 64)),
            of_char (base64_chars ! (c mod 64))] @ encode64 rest"
  unfolding encode64.simps sextets [OF assms(2,3)]
  using sextet_bounds [OF assms]
  by (simp_all add: charAt64_def str_def)

lemma decode64_quad:
  assumes "n1 < 64" "n2 < 64"
  shows "decode64 (of_char (base64_chars ! n1) # of_char (base64_chars ! n2) # e3 # e4 # rest) =
           (n1 * 4 + n2 div 16)
           # (if b64_index e3 = 64 then []
              else (n2 mod 16 * 16 + b64_index e3 div 4)
                   # (if b64_index e4 = 64 then []
                      else [b64_index e3 mod 4 * 64 + b64_index e4]))
           @ decode64 rest"
  by (simp add: Let_def b64_index_charAt [OF assms(1)] b64_index_charAt [OF assms(2)])

lemma decode64_Nil: "decode64 [] = []"
  by simp

lemma decode64_encode64:
  "\<forall>c \<in> set bs. c < 256 \<Longrightarrow> decode64 (encode64 bs) = bs"
proof (induction bs rule: encode64.induct)
  case 1
  show ?case by simp
next
  case (2 a)
  then have a: "a < 256" by simp
  have z: "(0::nat) < 256" by simp
  show ?case
    using sextet_bounds [OF a z z] sextet_bytes(1) [OF a z z]
    by (simp add: encode64_bytes(1) [OF a z z] decode64_quad decode64_Nil b64_index_pad
          del: decode64.simps(1) encode64.simps)
next
  case (3 a b)
  then have a: "a < 256" and b: "b < 256" by simp_all
  have z: "(0::nat) < 256" by simp
  show ?case
    using sextet_bounds [OF a b z] sextet_bytes(1,2,4) [OF a b z]
    by (simp add: encode64_bytes(2) [OF a b z] decode64_quad decode64_Nil b64_index_pad b64_index_charAt
          del: decode64.simps(1) encode64.simps)
next
  case (4 a b c rest)
  then have a: "a < 256" and b: "b < 256" and c: "c < 256"
    and r: "\<forall>c \<in> set rest. c < 256" by simp_all
  show ?case
    using sextet_bounds [OF a b c] sextet_bytes [OF a b c] "4.IH" [OF r]
    by (simp add: encode64_bytes(3) [OF a b c] decode64_quad b64_index_charAt
          del: decode64.simps(1) encode64.simps)
qed

lemma encode64_inject:
  assumes "\<forall>c \<in> set x. c < 256" and "\<forall>c \<in> set y. c < 256" and "encode64 x = encode64 y"
  shows "x = y"
  using assms by (metis decode64_encode64)

subsection \<open>The concrete inputs\<close>

lemma sample_service_constructed: "constructor sample_env = Inr sample_service"
  by (simp add: constructor_def sample_env_def sample_service_def unset_def opt_str_def str_def)

lemma sample_cipher_encrypts:
  "encryptCardData sample_cipher sample_service payload =
     Inr (encode64 (rev (case JSON_stringify payload of None \<Rightarrow> [] | Some jtext \<Rightarrow> jtext)))"
  by (simp add: encryptCardData_eq sample_cipher_def sample_service_def str_def)








section \<open>The claims\<close>

subsection \<open>C1: authorization data and their mode\<close>




subsection \<open>C2: a pending charge with preauthorize\<close>

text \<open>
  C2, as stated, fails on its second part: no action is derived from the hinted mode. For
  the body \<^verbatim>\<open>{status: "success", data: {status: "pending", flw_ref: "FLW123"},
  meta: {authorization: {mode: "otp"}}}\<close> and \<^verbatim>\<open>preauthorize = true\<close> the result is that
  body with \<^verbatim>\<open>requires_validation: true\<close>, \<^verbatim>\<open>validation_mode: "otp"\<close> and
  \<^verbatim>\<open>flw_ref: "FLW123"\<close>: it has no \<^verbatim>\<open>nextAction\<close>, and the value of
  \<^verbatim>\<open>PaymentAction.VALIDATE_OTP\<close> occurs nowhere in it.
\<close>

theorem pending_preauthorize_action_not_derived:
  "snd (chargeCard sample_cipher (\<lambda>rq. Inr body_pending_otp) sample_service sample_env
          sample_card) = Inr pending_otp_result
   \<and> getProp pending_otp_result (str ''validation_mode'')
       \<noteq> JStr (PaymentAction_value VALIDATE_OTP)
   \<and> nextAction pending_otp_result = JUndefined
   \<and> \<not> occurs (PaymentAction_value VALIDATE_OTP) pending_otp_result"
proof -
  have "chargeCard_response sample_card body_pending_otp = Inr pending_otp_result"
    by (simp add: chargeCard_response_def readProp_def optChain_getProp truthy_preauthorize
          body_pending_otp_def pending_otp_result_def sample_card_def assign_def Let_def)
  then have "snd (chargeCard sample_cipher (\<lambda>rq. Inr body_pending_otp) sample_service sample_env
          sample_card) = Inr pending_otp_result"
    by (simp add: chargeCard_sent [OF sample_cipher_encrypts] catching_def)
  then show ?thesis
    by (simp add: pending_otp_result_def nextAction_def)
qed

text \<open>
  C2, as the code has it. When the gateway's body has a top-level status other than
  \<^verbatim>\<open>"error"\<close>, the inner status \<^verbatim>\<open>"pending"\<close> and a truthy mode hint, and the request
  had \<^verbatim>\<open>preauthorize = true\<close>, \<^verbatim>\<open>chargeCard\<close> first converts the hint to a string, for
  its log message. If the conversion returns, as it does for every hint that is a string,
  the result is the body with three properties set: \<^verbatim>\<open>requires_validation\<close> is true,
  \<^verbatim>\<open>validation_mode\<close> is the hinted mode itself, and \<^verbatim>\<open>flw_ref\<close> is \<^verbatim>\<open>data.flw_ref\<close>,
  unchanged; every other property is the body's. If the conversion throws, as it does for
  an object that has a property \<^verbatim>\<open>toString\<close> of its own, \<^verbatim>\<open>chargeCard\<close> throws the
  \<^verbatim>\<open>ApiError\<close> its handler makes of that error.
\<close>

theorem chargeCard_pending_preauthorize:
  assumes "answered T (fst (chargeCard C T this env d)) rdata"
    and "preauthorize d = Some True"
    and "getProp rdata (str ''status'') \<noteq> JStr (str ''error'')"
    and "getProp (getProp rdata (str ''data'')) (str ''status'') = JStr (str ''pending'')"
    and "hint = getProp (getProp (getProp rdata (str ''meta'')) (str ''authorization''))
                  (str ''mode'')"
    and "truthy hint"
  shows "(\<forall>s. hint = JStr s \<longrightarrow> ToString hint = Inr s)
       \<and> (\<forall>info. ToString hint = Inr info \<longrightarrow>
            (\<exists>r. snd (chargeCard C T this env d) = Inr r
               \<and> getProp r (str ''requires_validation'') = JBool True
               \<and> getProp r (str ''validation_mode'') = hint
               \<and> getProp r (str ''flw_ref'') = getProp (getProp rdata (str ''data'')) (str ''flw_ref'')
               \<and> (\<forall>k. k \<notin> {str ''requires_validation'', str ''validation_mode'', str ''flw_ref''}
                      \<longrightarrow> getProp r k = getProp rdata k)))
       \<and> (\<forall>e. ToString hint = Inl e \<longrightarrow>
            snd (chargeCard C T this env d) = Inl (rethrow (str ''Card charge failed'') e))"
proof -
  from assms(4) have "getProp rdata (str ''data'') \<noteq> JUndefined" by auto
  then have o: "JObj (ownProps rdata) = rdata" by (rule getProp_object)
  have p: "\<And>k. getProp (JObj (ownProps rdata)) k = getProp rdata k"
    by (simp only: o)
  have r: "snd (chargeCard C T this env d) =
             catching (str ''Card charge failed'')
               (case ToString hint of
                  Inl e \<Rightarrow> Inl e
                | Inr info \<Rightarrow>
                    Inr (JObj (assign (str ''flw_ref'')
                                 (getProp (getProp rdata (str ''data'')) (str ''flw_ref''))
                              (assign (str ''validation_mode'') hint
                              (assign (str ''requires_validation'') (JBool True)
                                 (ownProps rdata))))))"
    using assms(6)
    by (simp only: chargeCard_answered [OF assms(1)] assms(5)
          chargeCard_response_pending [OF assms(3) assms(2) assms(4)])
  have 1: "\<forall>s. hint = JStr s \<longrightarrow> ToString hint = Inr s" by simp
  have 2: "\<forall>info. ToString hint = Inr info \<longrightarrow>
            (\<exists>r. snd (chargeCard C T this env d) = Inr r
               \<and> getProp r (str ''requires_validation'') = JBool True
               \<and> getProp r (str ''validation_mode'') = hint
               \<and> getProp r (str ''flw_ref'') = getProp (getProp rdata (str ''data'')) (str ''flw_ref'')
               \<and> (\<forall>k. k \<notin> {str ''requires_validation'', str ''validation_mode'', str ''flw_ref''}
                      \<longrightarrow> getProp r k = getProp rdata k))"
    by (simp add: r catching_def getProp_assign p del: getProp.simps)
  have 3: "\<forall>e. ToString hint = Inl e \<longrightarrow>
            snd (chargeCard C T this env d) = Inl (rethrow (str ''Card charge failed'') e)"
    by (simp add: r catching_def)
  from 1 2 3 show ?thesis by blast
qed

theorem chargeCard_pending_preauthorize_witness:
  "(\<exists>r. snd (chargeCard sample_cipher (\<lambda>rq. Inr body_pending_otp) sample_service sample_env
              sample_card) = Inr r
      \<and> getProp r (str ''requires_validation'') = JBool True
      \<and> getProp r (str ''validation_mode'') = JStr (str ''otp'')
      \<and> getProp r (str ''flw_ref'') = JStr (str ''FLW123'')
      \<and> getProp r (str ''status'') = JStr (str ''success''))
   \<and> snd (chargeCard sample_cipher (\<lambda>rq. Inr body_pending_object) sample_service sample_env
            sample_card)
       = Inl (ApiError 400 (JStr (str ''Cannot convert object to primitive value'')))"
proof -
  have a: "answered (\<lambda>rq. Inr body_pending_otp)
             (fst (chargeCard sample_cipher (\<lambda>rq. Inr body_pending_otp) sample_service
                     sample_env sample_card)) body_pending_otp"
    by (rule answered_constant [OF sample_cipher_encrypts])
  have p: "preauthorize sample_card = Some True"
    by (simp add: sample_card_def)
  have s: "getProp body_pending_otp (str ''status'') \<noteq> JStr (str ''error'')"
    and i: "getProp (getProp body_pending_otp (str ''data'')) (str ''status'')
              = JStr (str ''pending'')"
    and h: "JStr (str ''otp'')
              = getProp (getProp (getProp body_pending_otp (str ''meta'')) (str ''authorization''))
                  (str ''mode'')"
    and f: "getProp (getProp body_pending_otp (str ''data'')) (str ''flw_ref'')
              = JStr (str ''FLW123'')"
    and t: "getProp body_pending_otp (str ''status'') = JStr (str ''success'')"
    by (simp_all add: body_pending_otp_def)
  have th: "truthy (JStr (str ''otp''))" by simp
  from chargeCard_pending_preauthorize [OF a p s i h th]
  have "\<exists>r. snd (chargeCard sample_cipher (\<lambda>rq. Inr body_pending_otp) sample_service
                   sample_env sample_card) = Inr r
      \<and> getProp r (str ''requires_validation'') = JBool True
      \<and> getProp r (str ''validation_mode'') = JStr (str ''otp'')
      \<and> getProp r (str ''flw_ref'') = getProp (getProp body_pending_otp (str ''data'')) (str ''flw_ref'')
      \<and> (\<forall>k. k \<notin> {str ''requires_validation'', str ''validation_mode'', str ''flw_ref''}
             \<longrightarrow> getProp r k = getProp body_pending_otp k)"
    by simp
  then obtain r where r: "snd (chargeCard sample_cipher (\<lambda>rq. Inr body_pending_otp) sample_service
                            sample_env sample_card) = Inr r"
      "getProp r (str ''requires_validation'') = JBool True"
      "getProp r (str ''validation_mode'') = JStr (str ''otp'')"
      "getProp r (str ''flw_ref'') = getProp (getProp body_pending_otp (str ''data'')) (str ''flw_ref'')"
      "\<forall>k. k \<notin> {str ''requires_validation'', str ''validation_mode'', str ''flw_ref''}
            \<longrightarrow> getProp r k = getProp body_pending_otp k"
    by blast
  from r(5) have "getProp r (str ''status'') = getProp body_pending_otp (str ''status'')"
    by simp
  with r(1-4) f t have 1: "\<exists>r. snd (chargeCard sample_cipher (\<lambda>rq. Inr body_pending_otp) sample_service
              sample_env sample_card) = Inr r
      \<and> getProp r (str ''requires_validation'') = JBool True
      \<and> getProp r (str ''validation_mode'') = JStr (str ''otp'')
      \<and> getProp r (str ''flw_ref'') = JStr (str ''FLW123'')
      \<and> getProp r (str ''status'') = JStr (str ''success'')"
    by simp
  have a': "answered (\<lambda>rq. Inr body_pending_object)
             (fst (chargeCard sample_cipher (\<lambda>rq. Inr body_pending_object) sample_service
                     sample_env sample_card)) body_pending_object"
    by (rule answered_constant [OF sample_cipher_encrypts])
  have s': "getProp body_pending_object (str ''status'') \<noteq> JStr (str ''error'')"
    and i': "getProp (getProp body_pending_object (str ''data'')) (str ''status'')
              = JStr (str ''pending'')"
    and h': "JObj [(str ''toString'', JNum (JsNum (str ''1'') True True))]
              = getProp (getProp (getProp body_pending_object (str ''meta''))
                           (str ''authorization'')) (str ''mode'')"
    by (simp_all add: body_pending_object_def)
  have th': "truthy (JObj [(str ''toString'', JNum (JsNum (str ''1'') True True))])" by simp
  have ts: "ToString (JObj [(str ''toString'', JNum (JsNum (str ''1'') True True))])
              = Inl (Other JUndefined (JStr (str ''Cannot convert object to primitive value'')))"
    by simp
  from chargeCard_pending_preauthorize [OF a' p s' i' h' th'] ts
  have 2: "snd (chargeCard sample_cipher (\<lambda>rq. Inr body_pending_object) sample_service sample_env
            sample_card)
       = Inl (ApiError 400 (JStr (str ''Cannot convert object to primitive value'')))"
    by (simp add: rethrow_def optChain_def js_or_def BAD_REQUEST_def)
  from 1 2 show ?thesis by blast
qed

subsection \<open>C3: a successful charge\<close>

text \<open>
  C3, as stated, fails: the response is not interpreted. For the body
  \<^verbatim>\<open>{status: "success", data: {status: "successful"}}\<close> the result of \<^verbatim>\<open>chargeCard\<close>
  is that body: it has no \<^verbatim>\<open>nextAction\<close>, and the value of \<^verbatim>\<open>PaymentAction.COMPLETE\<close>
  occurs nowhere in it.
\<close>

theorem successful_body_has_no_action:
  "snd (chargeCard sample_cipher (\<lambda>rq. Inr body_successful) sample_service sample_env
          sample_card) = Inr body_successful
   \<and> nextAction body_successful = JUndefined
   \<and> \<not> occurs (PaymentAction_value COMPLETE) body_successful"
proof -
  have "chargeCard_response sample_card body_successful = Inr body_successful"
    by (rule chargeCard_response_other) (simp_all add: body_successful_def)
  then have "snd (chargeCard sample_cipher (\<lambda>rq. Inr body_successful) sample_service sample_env
          sample_card) = Inr body_successful"
    by (simp add: chargeCard_sent [OF sample_cipher_encrypts] catching_def)
  then show ?thesis
    by (simp add: body_successful_def nextAction_def)
qed

text \<open>
  C3, as the code has it. When the gateway's body has a top-level status other than
  \<^verbatim>\<open>"error"\<close> and the inner status \<^verbatim>\<open>"successful"\<close>, \<^verbatim>\<open>chargeCard\<close> returns that body
  unchanged, whatever \<^verbatim>\<open>preauthorize\<close> is.
\<close>

theorem chargeCard_successful_returns_body:
  assumes "answered T (fst (chargeCard C T this env d)) rdata"
    and "getProp rdata (str ''status'') \<noteq> JStr (str ''error'')"
    and "getProp (getProp rdata (str ''data'')) (str ''status'') = JStr (str ''successful'')"
  shows "snd (chargeCard C T this env d) = Inr rdata"
proof -
  from assms(3) have "getProp rdata (str ''data'') \<noteq> JUndefined" by auto
  then have "\<not> nullish rdata" by (rule getProp_defined)
  then have "chargeCard_response d rdata = Inr rdata"
    using assms(2,3) by (intro chargeCard_response_other) simp_all
  then show ?thesis
    by (simp add: chargeCard_answered [OF assms(1)] catching_def)
qed

theorem chargeCard_successful_returns_body_witness:
  "snd (chargeCard sample_cipher (\<lambda>rq. Inr body_successful) sample_service sample_env
          pin_card_without_pin) = Inr body_successful"
proof -
  have a: "answered (\<lambda>rq. Inr body_successful)
             (fst (chargeCard sample_cipher (\<lambda>rq. Inr body_successful) sample_service
                     sample_env pin_card_without_pin)) body_successful"
    by (rule answered_constant [OF sample_cipher_encrypts])
  have s: "getProp body_successful (str ''status'') \<noteq> JStr (str ''error'')"
    and i: "getProp (getProp body_successful (str ''data'')) (str ''status'')
              = JStr (str ''successful'')"
    by (simp_all add: body_successful_def)
  from chargeCard_successful_returns_body [OF a s i] show ?thesis .
qed

subsection \<open>C4: any other status\<close>

text \<open>
  C4, as stated, fails: a body that none of the rules matches is not turned into a failure.
  For \<^verbatim>\<open>{status: "success", data: {status: "failed"}}\<close> the outcome of \<^verbatim>\<open>chargeCard\<close>
  is no \<^verbatim>\<open>ApiError\<close>: the body is returned, as a successful one is.
\<close>

theorem unmatched_status_is_returned:
  "snd (chargeCard sample_cipher (\<lambda>rq. Inr body_failed) sample_service sample_env sample_card)
     = Inr body_failed
   \<and> \<not> isl (snd (chargeCard sample_cipher (\<lambda>rq. Inr body_failed) sample_service sample_env
                   sample_card))"
proof -
  have "chargeCard_response sample_card body_failed = Inr body_failed"
    by (rule chargeCard_response_other) (simp_all add: body_failed_def)
  then show ?thesis
    by (simp add: chargeCard_sent [OF sample_cipher_encrypts] catching_def)
qed

text \<open>
  C4, as the code has it. When the gateway's body is not null, its top-level status is not
  \<^verbatim>\<open>"error"\<close>, its inner status is not \<^verbatim>\<open>"successful"\<close>, and it is not a pending body
  with a mode hint, \<^verbatim>\<open>chargeCard\<close> returns the body unchanged: no error is raised and no
  classification is added.
\<close>

theorem chargeCard_unmatched_returns_body:
  assumes "answered T (fst (chargeCard C T this env d)) rdata"
    and "\<not> nullish rdata"
    and "getProp rdata (str ''status'') \<noteq> JStr (str ''error'')"
    and "getProp (getProp rdata (str ''data'')) (str ''status'') \<noteq> JStr (str ''successful'')"
    and "\<not> (getProp (getProp rdata (str ''data'')) (str ''status'') = JStr (str ''pending'')
            \<and> truthy (getProp (getProp (getProp rdata (str ''meta'')) (str ''authorization''))
                         (str ''mode'')))"
  shows "snd (chargeCard C T this env d) = Inr rdata"
proof -
  have "chargeCard_response d rdata = Inr rdata"
    using assms(2,3,5) by (intro chargeCard_response_other) auto
  then show ?thesis
    by (simp add: chargeCard_answered [OF assms(1)] catching_def)
qed

theorem chargeCard_unmatched_returns_body_witness:
  "snd (chargeCard sample_cipher (\<lambda>rq. Inr body_failed) sample_service sample_env
          pin_card_without_pin) = Inr body_failed"
proof -
  have a: "answered (\<lambda>rq. Inr body_failed)
             (fst (chargeCard sample_cipher (\<lambda>rq. Inr body_failed) sample_service
                     sample_env pin_card_without_pin)) body_failed"
    by (rule answered_constant [OF sample_cipher_encrypts])
  have n: "\<not> nullish body_failed"
    and s: "getProp body_failed (str ''status'') \<noteq> JStr (str ''error'')"
    and i: "getProp (getProp body_failed (str ''data'')) (str ''status'')
              \<noteq> JStr (str ''successful'')"
    and p: "\<not> (getProp (getProp body_failed (str ''data'')) (str ''status'') = JStr (str ''pending'')
              \<and> truthy (getProp (getProp (getProp body_failed (str ''meta''))
                                    (str ''authorization'')) (str ''mode'')))"
    by (simp_all add: body_failed_def)
  from chargeCard_unmatched_returns_body [OF a n s i p] show ?thesis .
qed

subsection \<open>C5: a body with the status "error"\<close>

lemma js_or_undefined: "js_or (js_or a JUndefined) b = js_or a b"
  by (simp add: js_or_def)

lemma exchange_rejected:
  assumes "getProp rdata (str ''status'') = JStr (str ''error'')"
    and "gateway_body (T rq) = rdata"
  shows "exchange fallback T rq =
           ([rq], Inl (ApiError BAD_REQUEST
                         (js_or (js_or (getProp rdata (str ''message'')) (client_message (T rq)))
                                (JStr fallback))))"
proof (cases "T rq")
  case (Inl e)
  with assms(2) show ?thesis
    by (simp add: exchange_def catching_def rethrow_reply del: gateway_body.simps(2))
next
  case (Inr body)
  with assms show ?thesis
    by (simp add: exchange_def catching_def plain_response_error rethrow_Api js_or_undefined)
qed

lemma chargeCard_rejected:
  assumes "getProp rdata (str ''status'') = JStr (str ''error'')"
    and "encryptCardData C this (cardData env d) = Inr ct"
    and "gateway_body (T (chargeCard_request this (cardData env d) ct)) = rdata"
  shows "chargeCard C T this env d =
           ([chargeCard_request this (cardData env d) ct],
            Inl (ApiError BAD_REQUEST
                   (js_or (js_or (getProp rdata (str ''message''))
                                 (client_message (T (chargeCard_request this (cardData env d) ct))))
                          (JStr (str ''Card charge failed'')))))"
proof (cases "T (chargeCard_request this (cardData env d) ct)")
  case (Inl e)
  with assms(3) show ?thesis
    by (simp add: chargeCard_sent [OF assms(2)] catching_def rethrow_reply
          del: gateway_body.simps(2))
next
  case (Inr body)
  with assms(1,3) show ?thesis
    by (simp add: chargeCard_sent [OF assms(2)] catching_def chargeCard_response_error
          rethrow_Api js_or_undefined)
qed

text \<open>
  C5. For each of the six operations: when the reply to the request of the operation
  carries a body of the gateway whose top-level status is \<^verbatim>\<open>"error"\<close>, be it the body of
  a response or the body that comes with a failure status, the operation has issued that
  one request and does not return: it throws an \<^verbatim>\<open>ApiError\<close> classified \<^verbatim>\<open>BAD_REQUEST\<close>
  whose message is the gateway's message, or, when the gateway's is missing or empty, the
  client's message for the failure status if there is one, else the operation's own
  generic message.
\<close>

theorem gateway_error_rejected:
  assumes "getProp rdata (str ''status'') = JStr (str ''error'')"
  shows "(\<forall>ct. encryptCardData C this (cardData env d) = Inr ct
              \<and> gateway_body (T (chargeCard_request this (cardData env d) ct)) = rdata \<longrightarrow>
            chargeCard C T this env d =
              ([chargeCard_request this (cardData env d) ct],
               Inl (ApiError BAD_REQUEST
                      (js_or (js_or (getProp rdata (str ''message''))
                                (client_message (T (chargeCard_request this (cardData env d) ct))))
                             (JStr (str ''Card charge failed''))))))
       \<and> (gateway_body (T (chargeWithToken_request this td)) = rdata \<longrightarrow>
            chargeWithToken T this td =
              ([chargeWithToken_request this td],
               Inl (ApiError BAD_REQUEST
                      (js_or (js_or (getProp rdata (str ''message''))
                                (client_message (T (chargeWithToken_request this td))))
                             (JStr (str ''Tokenized charge failed''))))))
       \<and> (gateway_body (T (validateCharge_request this ref code ty)) = rdata \<longrightarrow>
            validateCharge T this ref code ty =
              ([validateCharge_request this ref code ty],
               Inl (ApiError BAD_REQUEST
                      (js_or (js_or (getProp rdata (str ''message''))
                                (client_message (T (validateCharge_request this ref code ty))))
                             (JStr (str ''Charge validation failed''))))))
       \<and> (gateway_body (T (getCardBIN_request this cardNumber)) = rdata \<longrightarrow>
            getCardBIN T this cardNumber =
              ([getCardBIN_request this cardNumber],
               Inl (ApiError BAD_REQUEST
                      (js_or (js_or (getProp rdata (str ''message''))
                                (client_message (T (getCardBIN_request this cardNumber))))
                             (JStr (str ''Card BIN lookup failed''))))))
       \<and> (gateway_body (T (verifyPayment_request this transactionId)) = rdata \<longrightarrow>
            verifyPayment T this transactionId =
              ([verifyPayment_request this transactionId],
               Inl (ApiError BAD_REQUEST
                      (js_or (js_or (getProp rdata (str ''message''))
                                (client_message (T (verifyPayment_request this transactionId))))
                             (JStr (str ''Payment verification failed''))))))
       \<and> (gateway_body (T (voidPreauthorization_request this voidId)) = rdata \<longrightarrow>
            voidPreauthorization T this voidId =
              ([voidPreauthorization_request this voidId],
               Inl (ApiError BAD_REQUEST
                      (js_or (js_or (getProp rdata (str ''message''))
                                (client_message (T (voidPreauthorization_request this voidId))))
                             (JStr (str ''Void preauthorization failed''))))))"
  using chargeCard_rejected [OF assms] exchange_rejected [OF assms]
  by (simp add: chargeWithToken_def validateCharge_def getCardBIN_def verifyPayment_def
        voidPreauthorization_def del: gateway_body.simps client_message.simps)

theorem gateway_error_rejected_witness:
  "chargeCard sample_cipher (\<lambda>rq. Inr body_error) sample_service sample_env sample_card
     = ([chargeCard_request sample_service (cardData sample_env sample_card)
           (encode64 (rev (the (JSON_stringify (cardData sample_env sample_card)))))],
        Inl (ApiError 400 (JStr (str ''Invalid card''))))
   \<and> chargeWithToken (\<lambda>rq. Inl (status_400 body_error)) sample_service sample_token_charge
       = ([chargeWithToken_request sample_service sample_token_charge],
          Inl (ApiError 400 (JStr (str ''Invalid card''))))
   \<and> validateCharge (\<lambda>rq. Inr body_error_plain) sample_service (str ''FLW123'') (str ''12345'')
        None
       = ([validateCharge_request sample_service (str ''FLW123'') (str ''12345'') None],
          Inl (ApiError 400 (JStr (str ''Charge validation failed''))))
   \<and> getCardBIN (\<lambda>rq. Inr body_error) sample_service (str ''553188'')
       = ([getCardBIN_request sample_service (str ''553188'')],
          Inl (ApiError 400 (JStr (str ''Invalid card''))))
   \<and> verifyPayment (\<lambda>rq. Inl (status_400 body_error_plain)) sample_service (str ''4075658'')
       = ([verifyPayment_request sample_service (str ''4075658'')],
          Inl (ApiError 400 (JStr (str ''Request failed with status code 400''))))
   \<and> voidPreauthorization (\<lambda>rq. Inr body_error) sample_service (str ''4075658'')
       = ([voidPreauthorization_request sample_service (str ''4075658'')],
          Inl (ApiError 400 (JStr (str ''Invalid card''))))"
proof -
  have e: "getProp body_error (str ''status'') = JStr (str ''error'')"
    and e': "getProp body_error_plain (str ''status'') = JStr (str ''error'')"
    by (simp_all add: body_error_def body_error_plain_def)
  have m: "getProp body_error (str ''message'') = JStr (str ''Invalid card'')"
    and m': "getProp body_error_plain (str ''message'') = JUndefined"
    by (simp_all add: body_error_def body_error_plain_def)
  obtain jtext where t: "JSON_stringify (cardData sample_env sample_card) = Some jtext"
    using cardData_object stringify_object by metis
  have c: "encryptCardData sample_cipher sample_service (cardData sample_env sample_card)
             = Inr (encode64 (rev (the (JSON_stringify (cardData sample_env sample_card)))))"
    by (simp add: sample_cipher_encrypts t)
  have g: "gateway_body (Inl (status_400 b)) = b" for b
    by (simp add: status_400_def optChain_def)
  have cm: "client_message (Inl (status_400 b)) = JStr (str ''Request failed with status code 400'')"
    for b
    by (simp add: status_400_def)
  note by_response =
    gateway_error_rejected [OF e, where T = "\<lambda>rq. Inr body_error" and C = sample_cipher
      and this = sample_service and env = sample_env and d = sample_card
      and cardNumber = "str ''553188''" and voidId = "str ''4075658''"]
  note by_failure =
    gateway_error_rejected [OF e, where T = "\<lambda>rq. Inl (status_400 body_error)"
      and this = sample_service and td = sample_token_charge]
  note plain_by_response =
    gateway_error_rejected [OF e', where T = "\<lambda>rq. Inr body_error_plain"
      and this = sample_service and ref = "str ''FLW123''" and code = "str ''12345''"
      and ty = None]
  note plain_by_failure =
    gateway_error_rejected [OF e', where T = "\<lambda>rq. Inl (status_400 body_error_plain)"
      and this = sample_service and transactionId = "str ''4075658''"]
  from by_response c
  have 1: "chargeCard sample_cipher (\<lambda>rq. Inr body_error) sample_service sample_env sample_card
     = ([chargeCard_request sample_service (cardData sample_env sample_card)
           (encode64 (rev (the (JSON_stringify (cardData sample_env sample_card)))))],
        Inl (ApiError 400 (JStr (str ''Invalid card''))))"
    and 4: "getCardBIN (\<lambda>rq. Inr body_error) sample_service (str ''553188'')
       = ([getCardBIN_request sample_service (str ''553188'')],
          Inl (ApiError 400 (JStr (str ''Invalid card''))))"
    and 6: "voidPreauthorization (\<lambda>rq. Inr body_error) sample_service (str ''4075658'')
       = ([voidPreauthorization_request sample_service (str ''4075658'')],
          Inl (ApiError 400 (JStr (str ''Invalid card''))))"
    by (simp_all add: m js_or_def BAD_REQUEST_def)
  from by_failure
  have 2: "chargeWithToken (\<lambda>rq. Inl (status_400 body_error)) sample_service sample_token_charge
       = ([chargeWithToken_request sample_service sample_token_charge],
          Inl (ApiError 400 (JStr (str ''Invalid card''))))"
    by (simp add: g m js_or_def BAD_REQUEST_def del: gateway_body.simps client_message.simps)
  from plain_by_response
  have 3: "validateCharge (\<lambda>rq. Inr body_error_plain) sample_service (str ''FLW123'')
             (str ''12345'') None
       = ([validateCharge_request sample_service (str ''FLW123'') (str ''12345'') None],
          Inl (ApiError 400 (JStr (str ''Charge validation failed''))))"
    by (simp add: m' js_or_def BAD_REQUEST_def)
  from plain_by_failure
  have 5: "verifyPayment (\<lambda>rq. Inl (status_400 body_error_plain)) sample_service (str ''4075658'')
       = ([verifyPayment_request sample_service (str ''4075658'')],
          Inl (ApiError 400 (JStr (str ''Request failed with status code 400''))))"
    by (simp add: g cm m' js_or_def BAD_REQUEST_def del: gateway_body.simps client_message.simps)
  from 1 2 3 4 5 6 show ?thesis by blast
qed

subsection \<open>C6: the result of validateCharge\<close>

text \<open>
  C6, as stated, fails: \<^verbatim>\<open>validateCharge\<close> does not look at what the body says beyond
  the top-level status. A body that asks for a further validation is returned as it is;
  no \<^verbatim>\<open>ApiError\<close> is thrown.
\<close>

theorem validateCharge_revalidation_returned:
  "snd (validateCharge (\<lambda>rq. Inr body_pending_otp) sample_service (str ''FLW123'')
          (str ''12345'') None)
     = Inr body_pending_otp"
  by (simp add: validateCharge_def exchange_def catching_def plain_response_def readProp_def
        body_pending_otp_def)

text \<open>
  C6, as the code has it. Whenever the gateway's body is not null and its top-level status
  is not \<^verbatim>\<open>"error"\<close>, \<^verbatim>\<open>validateCharge\<close> returns the body unchanged, also when the body
  asks for a further validation.
\<close>

theorem validateCharge_returns_body:
  assumes "answered T (fst (validateCharge T this ref code ty)) rdata"
    and "\<not> nullish rdata"
    and "getProp rdata (str ''status'') \<noteq> JStr (str ''error'')"
  shows "snd (validateCharge T this ref code ty) = Inr rdata"
  using assms(1) unfolding validateCharge_def
  by (simp add: exchange_answered plain_response_other [OF assms(2,3)] catching_def)

theorem validateCharge_returns_body_witness:
  "snd (validateCharge (\<lambda>rq. Inr body_successful) sample_service (str ''FLW123'')
          (str ''12345'') (Some account)) = Inr body_successful"
proof -
  have a: "answered (\<lambda>rq. Inr body_successful)
             (fst (validateCharge (\<lambda>rq. Inr body_successful) sample_service (str ''FLW123'')
                     (str ''12345'') (Some account))) body_successful"
    by (simp add: validateCharge_def exchange_def answered_def)
  have n: "\<not> nullish body_successful"
    and s: "getProp body_successful (str ''status'') \<noteq> JStr (str ''error'')"
    by (simp_all add: body_successful_def)
  from validateCharge_returns_body [OF a n s] show ?thesis .
qed

subsection \<open>C7: the encoder and the envelope\<close>

lemma utf8_1_length: "1 \<le> length (utf8_1 n)" "128 \<le> n \<Longrightarrow> 2 \<le> length (utf8_1 n)"
  by (simp_all add: utf8_1_def)

lemma utf8_encode_length:
  "length s \<le> length (utf8_encode s)
   \<and> (\<not> (\<forall>c \<in> set s. c < 128) \<longrightarrow> length s < length (utf8_encode s))"
proof (induction s rule: utf8_encode.induct)
  case 1
  show ?case by simp
next
  case (2 c)
  show ?case
    using utf8_1_length [of c] utf8_1_length [of 65533]
    by (auto simp add: leading_surrogate_def trailing_surrogate_def)
next
  case (3 c d cs)
  show ?case
  proof (cases "leading_surrogate c \<and> trailing_surrogate d")
    case True
    then have "length (utf8_1 (65536 + (c - 55296) * 1024 + (d - 56320))) = 4"
      by (simp add: utf8_1_def)
    with True 3(1) show ?thesis
      by (auto simp add: leading_surrogate_def)
  next
    case False
    show ?thesis
    proof (cases "leading_surrogate c \<or> trailing_surrogate c")
      case True
      have "length (utf8_1 65533) = 3" by (simp add: utf8_1_def)
      with True False 3(2) show ?thesis
        by auto
    next
      case n: False
      with False 3(3) utf8_1_length [of c] show ?thesis
        by (cases "c < 128") auto
    qed
  qed
qed

lemma utf8_encode_ascii:
  "\<forall>c \<in> set s. c < 128 \<Longrightarrow> utf8_encode s = s"
  by (induction s rule: utf8_encode.induct)
    (simp_all add: utf8_1_def leading_surrogate_def trailing_surrogate_def)

lemma utf8_encode_same_iff: "s = utf8_encode s \<longleftrightarrow> (\<forall>c \<in> set s. c < 128)"
  using utf8_encode_length [of s] utf8_encode_ascii [of s] by (metis less_irrefl)

lemma sample_text_length:
  "length (the (JSON_stringify (cardData sample_env sample_card))) = 335"
  by (simp add: JSON_stringify_def cardData_def sample_card_def sample_env_def
        QuoteJSONString_def quote_unit_def leading_surrogate_def trailing_surrogate_def
        js_or_def opt_str_def opt_bool_def str_def)

lemma sample_utf8_length:
  "length (utf8_encode (the (JSON_stringify (cardData sample_env sample_card)))) = 336"
  by (simp add: JSON_stringify_def cardData_def sample_card_def sample_env_def
        QuoteJSONString_def quote_unit_def leading_surrogate_def trailing_surrogate_def
        js_or_def opt_str_def opt_bool_def str_def utf8_1_def)

lemma sample_text_bytes:
  "\<forall>c \<in> set (the (JSON_stringify (cardData sample_env sample_card))). c < 256"
  by (simp add: JSON_stringify_def cardData_def sample_card_def sample_env_def
        QuoteJSONString_def quote_unit_def leading_surrogate_def trailing_surrogate_def
        js_or_def opt_str_def opt_bool_def str_def)

lemma sample_utf8_bytes:
  "\<forall>c \<in> set (utf8_encode (the (JSON_stringify (cardData sample_env sample_card)))). c < 256"
  by (simp add: JSON_stringify_def cardData_def sample_card_def sample_env_def
        QuoteJSONString_def quote_unit_def leading_surrogate_def trailing_surrogate_def
        js_or_def opt_str_def opt_bool_def str_def utf8_1_def)

text \<open>
  C7, as stated, fails on the bytes that are encrypted: \<^verbatim>\<open>createBuffer\<close> is called without
  an encoding, so the cipher is given the JSON text as it is, not its UTF-8 encoding. For
  the card data of a customer whose name ends in the character of code 233 (e with an acute
  accent) the cipher input has 335 bytes and the UTF-8 serialization 336, and the encoder's
  output is not what the cipher gives for the UTF-8 serialization.
\<close>

theorem cipher_input_not_utf8:
  "length (createBuffer (JSON_stringify (cardData sample_env sample_card))) = 335
   \<and> length (utf8_encode (the (JSON_stringify (cardData sample_env sample_card)))) = 336
   \<and> encryptCardData sample_cipher sample_service (cardData sample_env sample_card)
       \<noteq> (case sample_cipher (str ''3DES-ECB'') (encryptionKey (config sample_service)) []
                  (utf8_encode (the (JSON_stringify (cardData sample_env sample_card)))) of
             Inl e \<Rightarrow> Inl e
           | Inr out \<Rightarrow> Inr (encode64 out))"
proof -
  obtain jtext where t: "JSON_stringify (cardData sample_env sample_card) = Some jtext"
    using cardData_object stringify_object by metis
  have l: "length jtext = 335" "length (utf8_encode jtext) = 336"
    using sample_text_length sample_utf8_length by (simp_all add: t)
  have b: "\<forall>c \<in> set (rev jtext). c < 256" "\<forall>c \<in> set (rev (utf8_encode jtext)). c < 256"
    using sample_text_bytes sample_utf8_bytes by (simp_all add: t)
  from l have "rev jtext \<noteq> rev (utf8_encode jtext)" by auto
  then have "encode64 (rev jtext) \<noteq> encode64 (rev (utf8_encode jtext))"
    using encode64_inject [OF b] by blast
  moreover have "length (encryptionKey (config sample_service)) = 24"
    by (simp add: sample_service_def str_def)
  ultimately show ?thesis
    using l by (simp add: sample_cipher_encrypts t createBuffer_def sample_cipher_def)
qed

text \<open>
  C7, as the code has it. The encoder's output is the base64 encoding of what the cipher
  \<^verbatim>\<open>3DES-ECB\<close>, keyed with the configured encryption key and started with an empty
  initialization vector, gives for the buffer that holds the JSON serialization of the
  card data as it is, each character code as one element and nothing encoded; that
  buffer is the UTF-8 serialization if and only if every character of the serialization
  is ASCII. \<^verbatim>\<open>chargeCard\<close> posts the output as \<^verbatim>\<open>client\<close> of the envelope
  \<^verbatim>\<open>{client, client_ip, device_fingerprint, alg}\<close> to \<^verbatim>\<open>/charges?type=card\<close>.
\<close>

theorem chargeCard_envelope:
  assumes "encryptCardData C this (cardData env d) = Inr ct"
  shows "\<exists>jtext out.
           JSON_stringify (cardData env d) = Some jtext
         \<and> C (str ''3DES-ECB'') (encryptionKey (config this)) [] jtext = Inr out
         \<and> ct = encode64 out
         \<and> (jtext = utf8_encode jtext \<longleftrightarrow> (\<forall>c \<in> set jtext. c < 128))
         \<and> fst (chargeCard C T this env d) =
             [\<lparr> http_method = POST, url = baseUrl this @ str ''/charges?type=card'',
                body = JObj [(str ''client'', JStr ct),
                             (str ''client_ip'', JStr (str ''127.0.0.1'')),
                             (str ''device_fingerprint'', JStr (str ''device_fingerprint'')),
                             (str ''alg'', JStr (str ''3DES-24''))],
                request_headers = headers this \<rparr>]"
proof -
  obtain jtext where t: "JSON_stringify (cardData env d) = Some jtext"
    using cardData_object stringify_object by metis
  with assms obtain out where
    o: "C (str ''3DES-ECB'') (encryptionKey (config this)) [] jtext = Inr out" "ct = encode64 out"
    by (auto simp add: encryptCardData_eq split: sum.splits)
  have "jtext = utf8_encode jtext \<longleftrightarrow> (\<forall>c \<in> set jtext. c < 128)"
    by (rule utf8_encode_same_iff)
  with t o show ?thesis
    by (simp add: chargeCard_sent [OF assms] chargeCard_request_eq)
qed

theorem chargeCard_envelope_witness:
  "fst (chargeCard sample_cipher (\<lambda>rq. Inr body_successful) sample_service sample_env
          sample_card) =
     [\<lparr> http_method = POST, url = str ''https://api.flutterwave.com/v3/charges?type=card'',
        body = JObj [(str ''client'',
                      JStr (encode64 (rev (the (JSON_stringify (cardData sample_env sample_card)))))),
                     (str ''client_ip'', JStr (str ''127.0.0.1'')),
                     (str ''device_fingerprint'', JStr (str ''device_fingerprint'')),
                     (str ''alg'', JStr (str ''3DES-24''))],
        request_headers = [(str ''Content-Type'', str ''application/json''),
                           (str ''Authorization'', str ''Bearer FLWSECK_TEST-1'')] \<rparr>]"
proof -
  obtain jtext where t: "JSON_stringify (cardData sample_env sample_card) = Some jtext"
    using cardData_object stringify_object by metis
  have e: "encryptCardData sample_cipher sample_service (cardData sample_env sample_card)
             = Inr (encode64 (rev jtext))"
    by (simp add: sample_cipher_encrypts t)
  have u: "baseUrl sample_service @ str ''/charges?type=card''
             = str ''https://api.flutterwave.com/v3/charges?type=card''"
    and h: "headers sample_service = [(str ''Content-Type'', str ''application/json''),
                           (str ''Authorization'', str ''Bearer FLWSECK_TEST-1'')]"
    by (simp_all add: sample_service_def str_def)
  from chargeCard_envelope [OF e, where T = "\<lambda>rq. Inr body_successful"]
  show ?thesis
    by (auto simp add: t u h)
qed

subsection \<open>C8: Triple DES in ECB mode and its way back\<close>

lemma length_permute: "length (permute table bs) = length table"
  by (simp add: permute_def)















lemma length_DES_block: "length (DES_block ks b) = 64"
  by (simp add: DES_block_def Let_def length_permute DES_FP_def)




lemma length_DES3_decrypt_block: "length (DES3_decrypt_block key b) = 64"
  by (simp add: DES3_decrypt_block_def length_DES_block split: prod.splits)





































subsection \<open>C10: the fixed fields of the envelope\<close>

text \<open>
  C10. Whatever the caller's card data, the object that is encrypted and every request
  \<^verbatim>\<open>chargeCard\<close> issues have \<^verbatim>\<open>client_ip\<close> equal to \<^verbatim>\<open>"127.0.0.1"\<close> and
  \<^verbatim>\<open>device_fingerprint\<close> equal to \<^verbatim>\<open>"device_fingerprint"\<close>.
\<close>

theorem chargeCard_fixed_fields:
  "getProp (cardData env d) (str ''client_ip'') = JStr (str ''127.0.0.1'')
   \<and> getProp (cardData env d) (str ''device_fingerprint'') = JStr (str ''device_fingerprint'')
   \<and> (\<forall>rq \<in> set (fst (chargeCard C T this env d)).
         getProp (body rq) (str ''client_ip'') = JStr (str ''127.0.0.1'')
       \<and> getProp (body rq) (str ''device_fingerprint'') = JStr (str ''device_fingerprint''))"
proof (cases "encryptCardData C this (cardData env d)")
  case (Inl e)
  then show ?thesis by (simp add: chargeCard_thrown cardData_fixed del: getProp.simps)
next
  case (Inr ct)
  then show ?thesis
    by (simp add: chargeCard_sent chargeCard_request_eq cardData_fixed)
qed

theorem chargeCard_fixed_fields_witness:
  "\<exists>rq. fst (chargeCard sample_cipher (\<lambda>rq. Inr body_successful) sample_service sample_env
             pin_card_without_pin) = [rq]
      \<and> getProp (body rq) (str ''client_ip'') = JStr (str ''127.0.0.1'')
      \<and> getProp (body rq) (str ''device_fingerprint'') = JStr (str ''device_fingerprint'')"
proof -
  have "\<exists>rq. fst (chargeCard sample_cipher (\<lambda>rq. Inr body_successful) sample_service sample_env
             pin_card_without_pin) = [rq]"
    by (simp add: chargeCard_sent [OF sample_cipher_encrypts])
  with chargeCard_fixed_fields [of sample_env pin_card_without_pin sample_cipher
      "\<lambda>rq. Inr body_successful" sample_service]
  show ?thesis by auto
qed

end
